theory Spec2Isabelle
  imports Complex_Main
begin

section \<open>Python values and errors\<close>

text \<open>
  The exceptions the modelled code can raise. Every raise of the source, and every
  raise of a library call the source makes, is the \<open>Inl\<close> branch of a result
  \<open>error + 'a\<close>.
\<close>

datatype error =
    AttributeError
  | AssertionError
  | IndexError
  | RuntimeError
  | TypeError
  | ValueError
  | ZeroDivisionError

text \<open>
  What a \<open>forward\<close> method hands back to its caller: a tensor, or Python's \<open>None\<close>
  when the body ends without a \<open>return\<close> statement.
\<close>

datatype 'a pyval = PyNone | PyTensor 'a

text \<open>Sequencing of calls that may raise: the first error is propagated.\<close>

definition bind_err :: "error + 'a \<Rightarrow> ('a \<Rightarrow> error + 'b) \<Rightarrow> error + 'b" where
  "bind_err r f = (case r of Inl e \<Rightarrow> Inl e | Inr v \<Rightarrow> f v)"

section \<open>Tensors and the library operations the code calls\<close>

text \<open>
  A tensor is its shape and its entries, read by a multi-index. Entries of floating-point
  tensors are idealised as reals. Only the entries at indices inside the shape are
  meaningful.
\<close>

record 'a tensor =
  shape :: "nat list"
  elt :: "nat list \<Rightarrow> 'a"

definition valid_index :: "nat list \<Rightarrow> nat list \<Rightarrow> bool" where
  "valid_index sh idx = list_all2 (\<lambda>i n. i < n) idx sh"

text \<open>All indices of a shape, in row-major order.\<close>

fun indices :: "nat list \<Rightarrow> nat list list" where
  "indices [] = [[]]"
| "indices (n # ns) = concat (map (\<lambda>i. map ((#) i) (indices ns)) [0..<n])"

text \<open>\<open>t.shape[k]\<close>: Python raises IndexError when the tensor has no such axis.\<close>

definition shape_at :: "nat list \<Rightarrow> nat \<Rightarrow> error + nat" where
  "shape_at sh k = (if k < length sh then Inr (sh ! k) else Inl IndexError)"

subsection \<open>Broadcasting\<close>

text \<open>
  Two shapes are aligned at their last axis; two sizes are compatible when they are
  equal or one of them is 1. An operand of size 1 along an axis is read at position 0.
\<close>

definition broadcast_dim :: "nat \<Rightarrow> nat \<Rightarrow> nat option" where
  "broadcast_dim a b =
     (if a = b then Some a else if a = 1 then Some b else if b = 1 then Some a else None)"

fun broadcast_rev :: "nat list \<Rightarrow> nat list \<Rightarrow> nat list option" where
  "broadcast_rev [] ys = Some ys"
| "broadcast_rev (x # xs) [] = Some (x # xs)"
| "broadcast_rev (x # xs) (y # ys) =
     (case broadcast_dim x y of
        None \<Rightarrow> None
      | Some d \<Rightarrow> (case broadcast_rev xs ys of None \<Rightarrow> None | Some ds \<Rightarrow> Some (d # ds)))"

definition broadcast_shapes :: "nat list \<Rightarrow> nat list \<Rightarrow> nat list option" where
  "broadcast_shapes a b = map_option rev (broadcast_rev (rev a) (rev b))"

definition bindex :: "nat list \<Rightarrow> nat list \<Rightarrow> nat list" where
  "bindex sh idx =
     map2 (\<lambda>n i. if n = 1 then 0 else i) sh (drop (length idx - length sh) idx)"

definition tadd :: "real tensor \<Rightarrow> real tensor \<Rightarrow> error + real tensor" where
  "tadd a b =
     (case broadcast_shapes (shape a) (shape b) of
        None \<Rightarrow> Inl RuntimeError
      | Some sh \<Rightarrow>
          Inr \<lparr> shape = sh,
                elt = (\<lambda>idx. elt a (bindex (shape a) idx) + elt b (bindex (shape b) idx)) \<rparr>)"

definition tmul :: "real tensor \<Rightarrow> real tensor \<Rightarrow> error + real tensor" where
  "tmul a b =
     (case broadcast_shapes (shape a) (shape b) of
        None \<Rightarrow> Inl RuntimeError
      | Some sh \<Rightarrow>
          Inr \<lparr> shape = sh,
                elt = (\<lambda>idx. elt a (bindex (shape a) idx) * elt b (bindex (shape b) idx)) \<rparr>)"

text \<open>Tensor times a Python float.\<close>

definition tscale :: "real tensor \<Rightarrow> real \<Rightarrow> real tensor" where
  "tscale a c = \<lparr> shape = shape a, elt = (\<lambda>idx. elt a idx * c) \<rparr>"

text \<open>
  \<open>t[:n]\<close>: the first \<open>n\<close> positions of the first axis. A slice bound beyond the axis
  is clipped without any error; a tensor with no axis cannot be sliced.
\<close>

definition slice_to :: "'a tensor \<Rightarrow> nat \<Rightarrow> error + 'a tensor" where
  "slice_to t n =
     (case shape t of
        [] \<Rightarrow> Inl IndexError
      | m # rest \<Rightarrow> Inr \<lparr> shape = min n m # rest, elt = elt t \<rparr>)"

text \<open>\<open>t.unsqueeze(-1)\<close>: a new last axis of size 1.\<close>

definition unsqueeze_last :: "'a tensor \<Rightarrow> 'a tensor" where
  "unsqueeze_last t = \<lparr> shape = shape t @ [1], elt = (\<lambda>idx. elt t (butlast idx)) \<rparr>"

subsection \<open>nn.Linear\<close>

text \<open>
  The initial values of the learnable parameters are drawn at random by the library;
  they are an argument of the constructors here. \<open>nn.Linear(i, o)\<close> has a bias unless
  \<open>bias=False\<close> is passed.
\<close>

record Linear =
  in_features :: nat
  out_features :: nat
  weight :: "nat \<Rightarrow> nat \<Rightarrow> real"
  bias :: "(nat \<Rightarrow> real) option"

record linear_params =
  w_init :: "nat \<Rightarrow> nat \<Rightarrow> real"
  b_init :: "nat \<Rightarrow> real"

definition nn_Linear :: "linear_params \<Rightarrow> nat \<Rightarrow> nat \<Rightarrow> bool \<Rightarrow> Linear" where
  "nn_Linear ps i out b =
     \<lparr> in_features = i, out_features = out, weight = w_init ps,
       bias = (if b then Some (b_init ps) else None) \<rparr>"

definition Linear_forward :: "Linear \<Rightarrow> real tensor \<Rightarrow> error + real tensor" where
  "Linear_forward l x =
     (if shape x = [] \<or> last (shape x) \<noteq> in_features l then Inl RuntimeError
      else Inr \<lparr> shape = butlast (shape x) @ [out_features l],
                 elt = (\<lambda>idx.
                   (\<Sum>k\<leftarrow>[0..<in_features l]. elt x (butlast idx @ [k]) * weight l (last idx) k)
                   + (case bias l of None \<Rightarrow> 0 | Some b \<Rightarrow> b (last idx))) \<rparr>)"

subsection \<open>nn.Dropout\<close>

text \<open>
  The constructor rejects a probability outside \<open>[0, 1]\<close>; a new module is in training
  mode. In training mode an entry is either zeroed or divided by \<open>1 - p\<close>; which entries
  are kept is decided by the backend's random stream, and is the argument \<open>keep\<close> of
  each call here. In evaluation mode the module is the identity.
\<close>

record Dropout =
  drop_p :: real
  training :: bool

definition nn_Dropout :: "real \<Rightarrow> error + Dropout" where
  "nn_Dropout q =
     (if q < 0 \<or> q > 1 then Inl ValueError else Inr \<lparr> drop_p = q, training = True \<rparr>)"

definition Dropout_forward :: "Dropout \<Rightarrow> (nat list \<Rightarrow> bool) \<Rightarrow> real tensor \<Rightarrow> real tensor" where
  "Dropout_forward d keep t =
     (if training d
      then \<lparr> shape = shape t,
             elt = (\<lambda>idx. if keep idx then elt t idx / (1 - drop_p d) else 0) \<rparr>
      else t)"

subsection \<open>nn.LayerNorm over the last axis\<close>

record LayerNorm =
  normalized_shape :: nat
  ln_weight :: "nat \<Rightarrow> real"
  ln_bias :: "nat \<Rightarrow> real"
  ln_eps :: real

definition nn_LayerNorm :: "nat \<Rightarrow> LayerNorm" where
  "nn_LayerNorm n =
     \<lparr> normalized_shape = n, ln_weight = (\<lambda>k. 1), ln_bias = (\<lambda>k. 0), ln_eps = 1 / 100000 \<rparr>"

definition row_mean :: "real tensor \<Rightarrow> nat \<Rightarrow> nat list \<Rightarrow> real" where
  "row_mean x n idx = (\<Sum>k\<leftarrow>[0..<n]. elt x (butlast idx @ [k])) / real n"

definition row_var :: "real tensor \<Rightarrow> nat \<Rightarrow> nat list \<Rightarrow> real" where
  "row_var x n idx =
     (\<Sum>k\<leftarrow>[0..<n]. (elt x (butlast idx @ [k]) - row_mean x n idx)\<^sup>2) / real n"

definition LayerNorm_forward :: "LayerNorm \<Rightarrow> real tensor \<Rightarrow> error + real tensor" where
  "LayerNorm_forward self x =
     (if shape x = [] \<or> last (shape x) \<noteq> normalized_shape self then Inl RuntimeError
      else Inr \<lparr> shape = shape x,
                 elt = (\<lambda>idx.
                   (elt x idx - row_mean x (normalized_shape self) idx)
                     / sqrt (row_var x (normalized_shape self) idx + ln_eps self)
                     * ln_weight self (last idx)
                   + ln_bias self (last idx)) \<rparr>)"

subsection \<open>nn.Embedding\<close>

text \<open>A table lookup; a token outside the table raises IndexError.\<close>

record Embedding =
  num_embeddings :: nat
  embedding_dim :: nat
  emb_weight :: "nat \<Rightarrow> nat \<Rightarrow> real"

definition nn_Embedding :: "(nat \<Rightarrow> nat \<Rightarrow> real) \<Rightarrow> nat \<Rightarrow> nat \<Rightarrow> Embedding" where
  "nn_Embedding w n d = \<lparr> num_embeddings = n, embedding_dim = d, emb_weight = w \<rparr>"

definition Embedding_forward :: "Embedding \<Rightarrow> int tensor \<Rightarrow> error + real tensor" where
  "Embedding_forward e x =
     (if list_all (\<lambda>idx. 0 \<le> elt x idx \<and> elt x idx < int (num_embeddings e)) (indices (shape x))
      then Inr \<lparr> shape = shape x @ [embedding_dim e],
                 elt = (\<lambda>idx. emb_weight e (nat (elt x (butlast idx))) (last idx)) \<rparr>
      else Inl IndexError)"

section \<open>FFN.py: FeedForward\<close>

text \<open>
  The activation is a constructor argument (any callable on tensors, \<open>nn.ReLU()\<close> by
  default). \<open>linear_v\<close> is assigned only when \<open>is_gated\<close> holds; reading it on a module
  built without gating raises AttributeError.
\<close>

record FeedForward =
  layer1 :: Linear
  layer2 :: Linear
  ff_dropout :: Dropout
  activation :: "real tensor \<Rightarrow> real tensor"
  is_gated :: bool
  linear_v :: "Linear option"

record ff_params =
  layer1_params :: linear_params
  layer2_params :: linear_params
  linear_v_params :: linear_params

definition ReLU :: "real tensor \<Rightarrow> real tensor" where
  "ReLU t = \<lparr> shape = shape t, elt = (\<lambda>idx. max 0 (elt t idx)) \<rparr>"

definition FeedForward_init ::
  "ff_params \<Rightarrow> nat \<Rightarrow> nat \<Rightarrow> real \<Rightarrow> (real tensor \<Rightarrow> real tensor) \<Rightarrow> bool \<Rightarrow> bool \<Rightarrow> bool \<Rightarrow> bool
     \<Rightarrow> error + FeedForward" where
  "FeedForward_init ps d_model d_ff dropout act gated bias1 bias2 bias_gate =
     bind_err (nn_Dropout dropout) (\<lambda>d.
       Inr \<lparr> layer1 = nn_Linear (layer1_params ps) d_model d_ff bias1,
             layer2 = nn_Linear (layer2_params ps) d_ff d_model bias2,
             ff_dropout = d,
             activation = act,
             is_gated = gated,
             linear_v = (if gated then Some (nn_Linear (linear_v_params ps) d_model d_ff bias_gate)
                         else None) \<rparr>)"

definition FeedForward_forward ::
  "FeedForward \<Rightarrow> (nat list \<Rightarrow> bool) \<Rightarrow> real tensor \<Rightarrow> error + real tensor" where
  "FeedForward_forward self keep x =
     bind_err (Linear_forward (layer1 self) x) (\<lambda>h.
     let g = activation self h in
     bind_err (if is_gated self
               then (case linear_v self of
                       None \<Rightarrow> Inl AttributeError
                     | Some lv \<Rightarrow> bind_err (Linear_forward lv x) (\<lambda>v. tmul g v))
               else Inr g) (\<lambda>x'.
     Linear_forward (layer2 self) (Dropout_forward (ff_dropout self) keep x')))"

section \<open>mha.py: PrepareForMultiHeadAttention and MultiHeadAttention\<close>

subsection \<open>Scores with minus infinity, weights with NaN\<close>

text \<open>
  After \<open>masked_fill\<close> an entry of the scores is a real or minus infinity. The softmax
  of a row is \<open>exp x / sum\<close>, with \<open>exp (-inf) = 0\<close>; a non-empty row that is minus
  infinity everywhere has the sum 0 and the library returns NaN at each of its
  positions. NaN is absorbing in the later products and sums.
\<close>

datatype score = Fin real | NegInf

datatype aweight = Wt real | NaN

fun expo :: "score \<Rightarrow> real" where
  "expo (Fin x) = exp x"
| "expo NegInf = 0"

definition softmax_row :: "score list \<Rightarrow> aweight list" where
  "softmax_row xs =
     (if list_all (\<lambda>x. x = NegInf) xs then map (\<lambda>x. NaN) xs
      else map (\<lambda>x. Wt (expo x / (\<Sum>y\<leftarrow>xs. expo y))) xs)"

fun wmul :: "aweight \<Rightarrow> real \<Rightarrow> aweight" where
  "wmul (Wt a) r = Wt (a * r)"
| "wmul NaN r = NaN"

fun wadd :: "aweight \<Rightarrow> aweight \<Rightarrow> aweight" where
  "wadd (Wt a) (Wt b) = Wt (a + b)"
| "wadd NaN b = NaN"
| "wadd a NaN = NaN"

definition wsum :: "aweight list \<Rightarrow> aweight" where
  "wsum ws = foldr wadd ws (Wt 0)"

text \<open>\<open>nn.Softmax(dim)\<close>: each row along the axis \<open>dim\<close> is normalised on its own.\<close>

definition Softmax_forward :: "nat \<Rightarrow> score tensor \<Rightarrow> error + aweight tensor" where
  "Softmax_forward axis s =
     (if axis < length (shape s)
      then Inr \<lparr> shape = shape s,
                 elt = (\<lambda>idx. softmax_row (map (\<lambda>j. elt s (idx[axis := j])) [0..<shape s ! axis])
                                 ! (idx ! axis)) \<rparr>
      else Inl IndexError)"

definition Dropout_forward_w ::
  "Dropout \<Rightarrow> (nat list \<Rightarrow> bool) \<Rightarrow> aweight tensor \<Rightarrow> aweight tensor" where
  "Dropout_forward_w d keep t =
     (if training d
      then \<lparr> shape = shape t,
             elt = (\<lambda>idx. if keep idx then wmul (elt t idx) (1 / (1 - drop_p d))
                           else wmul (elt t idx) 0) \<rparr>
      else t)"

text \<open>
  \<open>scores.masked_fill(mask == 0, -inf)\<close>: a mask with at most as many axes as the scores
  must be broadcastable to the shape of the scores. A mask with more axes than the
  scores is an error here; the library would broadcast the scores to it and the einsum
  that follows in \<open>forward\<close> would raise on the five axes, so \<open>forward\<close> raises RuntimeError
  either way.
\<close>

definition broadcastable_to :: "nat list \<Rightarrow> nat list \<Rightarrow> bool" where
  "broadcastable_to msh sh =
     (length msh \<le> length sh
      \<and> list_all2 (\<lambda>m n. m = 1 \<or> m = n) msh (drop (length sh - length msh) sh))"

definition masked_fill_neg_inf :: "real tensor \<Rightarrow> int tensor \<Rightarrow> error + score tensor" where
  "masked_fill_neg_inf s m =
     (if broadcastable_to (shape m) (shape s)
      then Inr \<lparr> shape = shape s,
                 elt = (\<lambda>idx. if elt m (bindex (shape m) idx) = 0 then NegInf
                               else Fin (elt s idx)) \<rparr>
      else Inl RuntimeError)"

definition unmasked :: "real tensor \<Rightarrow> score tensor" where
  "unmasked s = \<lparr> shape = shape s, elt = (\<lambda>idx. Fin (elt s idx)) \<rparr>"

subsection \<open>The two einsum contractions\<close>

text \<open>
  \<open>torch.einsum\<close> wants one axis per subscript letter; the sizes of a letter that occurs
  in both operands must be equal or 1.
\<close>

definition einsum_ibhd_jbhd :: "real tensor \<Rightarrow> real tensor \<Rightarrow> error + real tensor" where
  "einsum_ibhd_jbhd q k =
     (if length (shape q) = 4 \<and> length (shape k) = 4
      then (case broadcast_dim (shape q ! 1) (shape k ! 1) of
              None \<Rightarrow> Inl RuntimeError
            | Some b \<Rightarrow>
          (case broadcast_dim (shape q ! 2) (shape k ! 2) of
              None \<Rightarrow> Inl RuntimeError
            | Some h \<Rightarrow>
          (case broadcast_dim (shape q ! 3) (shape k ! 3) of
              None \<Rightarrow> Inl RuntimeError
            | Some d \<Rightarrow>
              Inr \<lparr> shape = [shape q ! 0, shape k ! 0, b, h],
                    elt = (\<lambda>idx. \<Sum>dd\<leftarrow>[0..<d].
                             elt q (bindex (shape q) [idx ! 0, idx ! 2, idx ! 3, dd])
                             * elt k (bindex (shape k) [idx ! 1, idx ! 2, idx ! 3, dd])) \<rparr>)))
      else Inl RuntimeError)"

definition einsum_ijbh_jbhd :: "aweight tensor \<Rightarrow> real tensor \<Rightarrow> error + aweight tensor" where
  "einsum_ijbh_jbhd a v =
     (if length (shape a) = 4 \<and> length (shape v) = 4
      then (case broadcast_dim (shape a ! 1) (shape v ! 0) of
              None \<Rightarrow> Inl RuntimeError
            | Some j \<Rightarrow>
          (case broadcast_dim (shape a ! 2) (shape v ! 1) of
              None \<Rightarrow> Inl RuntimeError
            | Some b \<Rightarrow>
          (case broadcast_dim (shape a ! 3) (shape v ! 2) of
              None \<Rightarrow> Inl RuntimeError
            | Some h \<Rightarrow>
              Inr \<lparr> shape = [shape a ! 0, b, h, shape v ! 3],
                    elt = (\<lambda>idx. wsum (map (\<lambda>jj.
                             wmul (elt a (bindex (shape a) [idx ! 0, jj, idx ! 1, idx ! 2]))
                                  (elt v (bindex (shape v) [jj, idx ! 1, idx ! 2, idx ! 3])))
                             [0..<j])) \<rparr>)))
      else Inl RuntimeError)"

subsection \<open>PrepareForMultiHeadAttention\<close>

text \<open>
  The constructor takes \<open>bias\<close> and builds \<open>nn.Linear(in_features=d_model,
  out_features=heads*d_k)\<close> without passing it on (mha.py line 15).
\<close>

record PrepareForMultiHeadAttention =
  pm_linear :: Linear
  pm_heads :: nat
  pm_d_k :: nat

definition PrepareForMultiHeadAttention_init ::
  "linear_params \<Rightarrow> nat \<Rightarrow> nat \<Rightarrow> nat \<Rightarrow> bool \<Rightarrow> PrepareForMultiHeadAttention" where
  "PrepareForMultiHeadAttention_init ps d_model heads d_k bias_arg =
     \<lparr> pm_linear = nn_Linear ps d_model (heads * d_k) True,
       pm_heads = heads,
       pm_d_k = d_k \<rparr>"

text \<open>
  \<open>x.view(*head_shape, heads, d_k)\<close> splits the last axis; the number of entries must
  not change.
\<close>

definition view_heads :: "real tensor \<Rightarrow> nat list \<Rightarrow> nat \<Rightarrow> nat \<Rightarrow> error + real tensor" where
  "view_heads y head_shape h d =
     (if prod_list (head_shape @ [h, d]) = prod_list (shape y)
      then Inr \<lparr> shape = head_shape @ [h, d],
                 elt = (\<lambda>idx. elt y (take (length head_shape) idx
                                       @ [idx ! length head_shape * d
                                          + idx ! Suc (length head_shape)])) \<rparr>
      else Inl RuntimeError)"

definition PrepareForMultiHeadAttention_forward ::
  "PrepareForMultiHeadAttention \<Rightarrow> real tensor \<Rightarrow> error + real tensor" where
  "PrepareForMultiHeadAttention_forward self x =
     (let head_shape = butlast (shape x) in
      bind_err (Linear_forward (pm_linear self) x) (\<lambda>y.
      view_heads y head_shape (pm_heads self) (pm_d_k self)))"

subsection \<open>MultiHeadAttention\<close>

record MultiHeadAttention =
  mha_d_k :: nat
  mha_heads :: nat
  mha_query :: PrepareForMultiHeadAttention
  mha_key :: PrepareForMultiHeadAttention
  mha_value :: PrepareForMultiHeadAttention
  mha_softmax_dim :: nat
  mha_output :: Linear
  mha_dropout :: Dropout
  mha_scale :: real
  mha_attn :: "aweight tensor option"

record mha_params =
  query_params :: linear_params
  key_params :: linear_params
  value_params :: linear_params
  output_params :: linear_params

text \<open>
  Lines 28-39. \<open>d_model // heads\<close> raises ZeroDivisionError for \<open>heads = 0\<close>, and so
  does \<open>1 / math.sqrt(self.d_k)\<close> for \<open>d_k = 0\<close>. Nothing compares \<open>heads * d_k\<close> with
  \<open>d_model\<close>.
\<close>

definition MultiHeadAttention_init ::
  "mha_params \<Rightarrow> nat \<Rightarrow> nat \<Rightarrow> real \<Rightarrow> bool \<Rightarrow> error + MultiHeadAttention" where
  "MultiHeadAttention_init ps heads d_model dropout_prob bias_arg =
     (if heads = 0 then Inl ZeroDivisionError
      else
        let d_k = d_model div heads;
            q = PrepareForMultiHeadAttention_init (query_params ps) d_model heads d_k bias_arg;
            k = PrepareForMultiHeadAttention_init (key_params ps) d_model heads d_k bias_arg;
            v = PrepareForMultiHeadAttention_init (value_params ps) d_model heads d_k True;
            out = nn_Linear (output_params ps) d_model d_model True
        in bind_err (nn_Dropout dropout_prob) (\<lambda>dr.
           if d_k = 0 then Inl ZeroDivisionError
           else Inr \<lparr> mha_d_k = d_k, mha_heads = heads,
                      mha_query = q, mha_key = k, mha_value = v,
                      mha_softmax_dim = 1,
                      mha_output = out,
                      mha_dropout = dr,
                      mha_scale = 1 / sqrt (real d_k),
                      mha_attn = None \<rparr>))"

definition get_scores :: "real tensor \<Rightarrow> real tensor \<Rightarrow> error + real tensor" where
  "get_scores query key = einsum_ibhd_jbhd query key"

text \<open>
  Lines 43-47. Each \<open>assert\<close> reads the shapes from left to right; \<open>or\<close> does not
  evaluate its second operand when the first holds.
\<close>

definition prepare_mask :: "int tensor \<Rightarrow> nat list \<Rightarrow> nat list \<Rightarrow> error + int tensor" where
  "prepare_mask msk query_shape key_shape =
     bind_err (shape_at (shape msk) 0) (\<lambda>m0.
     bind_err (if m0 = 1 then Inr True
               else bind_err (shape_at query_shape 0) (\<lambda>q0. Inr (m0 = q0))) (\<lambda>ok0.
     if \<not> ok0 then Inl AssertionError else
     bind_err (shape_at (shape msk) 1) (\<lambda>m1.
     bind_err (shape_at key_shape 0) (\<lambda>k0.
     if m1 \<noteq> k0 then Inl AssertionError else
     bind_err (shape_at (shape msk) 2) (\<lambda>m2.
     bind_err (if m2 = 1 then Inr True
               else bind_err (shape_at query_shape 1) (\<lambda>q1. Inr (m2 = q1))) (\<lambda>ok2.
     if \<not> ok2 then Inl AssertionError else
     Inr (unsqueeze_last msk)))))))"

text \<open>
  Lines 54-62 of \<open>forward\<close>, on the projected query and key: the value of the local
  variable \<open>attn\<close> after the softmax.
\<close>

definition attn_weights ::
  "MultiHeadAttention \<Rightarrow> real tensor \<Rightarrow> real tensor \<Rightarrow> int tensor option
     \<Rightarrow> error + aweight tensor" where
  "attn_weights self query key msk =
     bind_err (get_scores query key) (\<lambda>scores0.
     let scores = tscale scores0 (mha_scale self) in
     bind_err (case msk of
                 None \<Rightarrow> Inr None
               | Some m \<Rightarrow> bind_err (prepare_mask m (shape query) (shape key))
                                     (\<lambda>m'. Inr (Some m'))) (\<lambda>msk'.
     bind_err (case msk' of
                 None \<Rightarrow> Inr (unmasked scores)
               | Some m' \<Rightarrow> masked_fill_neg_inf scores m') (\<lambda>scores'.
     Softmax_forward (mha_softmax_dim self) scores')))"

text \<open>
  Lines 49-65. \<open>seq_len, batch_size, _ = query.shape\<close> raises ValueError unless the
  query has three axes. The body ends with the assignment to \<open>x\<close> at line 65: there is
  no \<open>return\<close>, so a call that raises nothing evaluates to \<open>None\<close>. \<open>self.output\<close> is
  not used.
\<close>

definition MultiHeadAttention_forward ::
  "MultiHeadAttention \<Rightarrow> (nat list \<Rightarrow> bool) \<Rightarrow> real tensor \<Rightarrow> real tensor \<Rightarrow> real tensor
     \<Rightarrow> int tensor option \<Rightarrow> error + real tensor pyval" where
  "MultiHeadAttention_forward self keep query key value msk =
     (if length (shape query) \<noteq> 3 then Inl ValueError
      else
        bind_err (PrepareForMultiHeadAttention_forward (mha_query self) query) (\<lambda>q.
        bind_err (PrepareForMultiHeadAttention_forward (mha_key self) key) (\<lambda>k.
        bind_err (PrepareForMultiHeadAttention_forward (mha_value self) value) (\<lambda>v.
        bind_err (attn_weights self q k msk) (\<lambda>attn.
        let attn' = Dropout_forward_w (mha_dropout self) keep attn in
        bind_err (einsum_ijbh_jbhd attn' v) (\<lambda>x.
        Inr PyNone))))))"

section \<open>models.py: the embedding front ends\<close>

text \<open>
  \<open>get_positional_encoding\<close> lives in a file of the repository that is not among the
  sources at hand; the table it returns is an argument of the constructor.
\<close>

record EmbeddingsWithPositionalEncoding =
  epe_linear :: Embedding
  epe_d_model :: nat
  epe_positional_encodings :: "real tensor"

definition EmbeddingsWithPositionalEncoding_init ::
  "(nat \<Rightarrow> nat \<Rightarrow> real tensor) \<Rightarrow> (nat \<Rightarrow> nat \<Rightarrow> real) \<Rightarrow> nat \<Rightarrow> nat \<Rightarrow> nat
     \<Rightarrow> EmbeddingsWithPositionalEncoding" where
  "EmbeddingsWithPositionalEncoding_init get_positional_encoding w d_model n_vocab max_len =
     \<lparr> epe_linear = nn_Embedding w n_vocab d_model,
       epe_d_model = d_model,
       epe_positional_encodings = get_positional_encoding d_model max_len \<rparr>"

text \<open>
  Lines 20-22. Line 21 calls \<open>required_grad_\<close> on the slice; a tensor has a method
  \<open>requires_grad_\<close> and no attribute \<open>required_grad_\<close>, so the lookup raises
  AttributeError and line 22 is never reached.
\<close>

definition EmbeddingsWithPositionalEncoding_forward ::
  "EmbeddingsWithPositionalEncoding \<Rightarrow> int tensor \<Rightarrow> error + real tensor" where
  "EmbeddingsWithPositionalEncoding_forward self x =
     bind_err (shape_at (shape x) 0) (\<lambda>n.
     bind_err (slice_to (epe_positional_encodings self) n) (\<lambda>pe.
     Inl AttributeError))"

record EmbeddingsWithLearnedPositionalEncoding =
  elpe_linear :: Embedding
  elpe_d_model :: nat
  elpe_positional_encodings :: "real tensor"
  elpe_requires_grad :: bool

definition zeros :: "nat list \<Rightarrow> real tensor" where
  "zeros sh = \<lparr> shape = sh, elt = (\<lambda>idx. 0) \<rparr>"

definition EmbeddingsWithLearnedPositionalEncoding_init ::
  "(nat \<Rightarrow> nat \<Rightarrow> real) \<Rightarrow> nat \<Rightarrow> nat \<Rightarrow> nat \<Rightarrow> EmbeddingsWithLearnedPositionalEncoding" where
  "EmbeddingsWithLearnedPositionalEncoding_init w d_model n_vocab max_len =
     \<lparr> elpe_linear = nn_Embedding w n_vocab d_model,
       elpe_d_model = d_model,
       elpe_positional_encodings = zeros [max_len, 1, d_model],
       elpe_requires_grad = True \<rparr>"

text \<open>
  Lines 33-35. \<open>requires_grad_(False)\<close> is accepted on a leaf tensor only. The slice of
  a parameter that requires a gradient is a leaf exactly when gradient recording is
  switched off (as under \<open>torch.no_grad()\<close>); with recording on, the call raises
  RuntimeError. Whether recording is on is the argument \<open>grad_enabled\<close>.
\<close>

definition EmbeddingsWithLearnedPositionalEncoding_forward ::
  "EmbeddingsWithLearnedPositionalEncoding \<Rightarrow> bool \<Rightarrow> int tensor \<Rightarrow> error + real tensor" where
  "EmbeddingsWithLearnedPositionalEncoding_forward self grad_enabled x =
     bind_err (shape_at (shape x) 0) (\<lambda>n.
     bind_err (slice_to (elpe_positional_encodings self) n) (\<lambda>pe.
     if grad_enabled \<and> elpe_requires_grad self then Inl RuntimeError
     else
       bind_err (Embedding_forward (elpe_linear self) x) (\<lambda>e.
       tadd (tscale e (sqrt (real (elpe_d_model self)))) pe)))"

section \<open>models.py: TransformerLayer\<close>

text \<open>
  The attention and feed-forward modules are constructor arguments, modelled by the
  function their call computes: what they return is a tensor or \<open>None\<close>. The layer's
  own dropout module is called up to three times, each time with a fresh random choice
  of the kept entries.
\<close>

type_synonym attention =
  "real tensor \<Rightarrow> real tensor \<Rightarrow> real tensor \<Rightarrow> int tensor option \<Rightarrow> error + real tensor pyval"

record TransformerLayer =
  tl_size :: nat
  self_attn :: attention
  src_attn :: "attention option"
  feed_forward :: "real tensor \<Rightarrow> error + real tensor pyval"
  tl_dropout :: Dropout
  norm_self_attn :: LayerNorm
  norm_src_attn :: "LayerNorm option"
  norm_ff :: LayerNorm
  is_save_ff_input :: bool

record layer_noise =
  keep_self :: "nat list \<Rightarrow> bool"
  keep_src :: "nat list \<Rightarrow> bool"
  keep_ff :: "nat list \<Rightarrow> bool"

text \<open>Lines 51-62: \<open>norm_src_attn\<close> exists only when a source attention was given.\<close>

definition TransformerLayer_init ::
  "nat \<Rightarrow> attention \<Rightarrow> attention option \<Rightarrow> (real tensor \<Rightarrow> error + real tensor pyval) \<Rightarrow> real
     \<Rightarrow> error + TransformerLayer" where
  "TransformerLayer_init d_model sa srca ff dropout_prob =
     bind_err (nn_Dropout dropout_prob) (\<lambda>d.
       Inr \<lparr> tl_size = d_model,
             self_attn = sa,
             src_attn = srca,
             feed_forward = ff,
             tl_dropout = d,
             norm_self_attn = nn_LayerNorm d_model,
             norm_src_attn = (case srca of None \<Rightarrow> None | Some a \<Rightarrow> Some (nn_LayerNorm d_model)),
             norm_ff = nn_LayerNorm d_model,
             is_save_ff_input = False \<rparr>)"

text \<open>The dropout module applied to what a sub-module returned: \<open>None\<close> is a TypeError.\<close>

definition dropout_call ::
  "Dropout \<Rightarrow> (nat list \<Rightarrow> bool) \<Rightarrow> real tensor pyval \<Rightarrow> error + real tensor" where
  "dropout_call d keep v =
     (case v of PyNone \<Rightarrow> Inl TypeError | PyTensor t \<Rightarrow> Inr (Dropout_forward d keep t))"

text \<open>
  Lines 63-81. The assignment to \<open>self.ff_input\<close> under \<open>is_save_ff_input\<close> stores an
  attribute and has no part in the returned value.
\<close>

definition TransformerLayer_forward ::
  "TransformerLayer \<Rightarrow> layer_noise \<Rightarrow> real tensor \<Rightarrow> int tensor option \<Rightarrow> real tensor option
     \<Rightarrow> int tensor option \<Rightarrow> error + real tensor" where
  "TransformerLayer_forward self noise x msk src src_mask =
     bind_err (LayerNorm_forward (norm_self_attn self) x) (\<lambda>z.
     bind_err (self_attn self z z z msk) (\<lambda>a.
     bind_err (dropout_call (tl_dropout self) (keep_self noise) a) (\<lambda>da.
     bind_err (tadd x da) (\<lambda>x1.
     bind_err (case src of
                 None \<Rightarrow> Inr x1
               | Some memory \<Rightarrow>
                   (case norm_src_attn self of
                      None \<Rightarrow> Inl AttributeError
                    | Some n \<Rightarrow>
                        bind_err (LayerNorm_forward n x1) (\<lambda>z2.
                        (case src_attn self of
                           None \<Rightarrow> Inr x1
                         | Some srca \<Rightarrow>
                             bind_err (srca z2 memory memory src_mask) (\<lambda>a2.
                             bind_err (dropout_call (tl_dropout self) (keep_src noise) a2) (\<lambda>da2.
                             tadd x1 da2)))))) (\<lambda>x2.
     bind_err (LayerNorm_forward (norm_ff self) x2) (\<lambda>z3.
     bind_err (feed_forward self z3) (\<lambda>f.
     bind_err (dropout_call (tl_dropout self) (keep_ff noise) f) (\<lambda>df.
     tadd x2 df))))))))"

section \<open>models.py: EncoderDecoder\<close>

text \<open>
  The five sub-modules are constructor arguments; each is modelled by the function its
  call computes. Python is dynamically typed, so token tensors, masks and embedded
  tensors share the one type \<open>'t\<close>.
\<close>

record 't EncoderDecoder =
  encoder :: "'t \<Rightarrow> 't \<Rightarrow> error + 't"
  decoder :: "'t \<Rightarrow> 't \<Rightarrow> 't \<Rightarrow> 't \<Rightarrow> error + 't"
  src_embed :: "'t \<Rightarrow> error + 't"
  tgt_embed :: "'t \<Rightarrow> error + 't"
  generator :: "'t \<Rightarrow> error + 't"

text \<open>
  \<open>encode\<close> and \<open>decode\<close> are written inside the body of \<open>forward\<close> (models.py lines
  133-137): they are local functions of that call, never attributes of the module, and
  \<open>forward\<close> never calls them.
\<close>

definition encode :: "'t EncoderDecoder \<Rightarrow> 't \<Rightarrow> 't \<Rightarrow> error + 't" where
  "encode self src src_mask =
     bind_err (src_embed self src) (\<lambda>e. encoder self e src_mask)"

definition decode :: "'t EncoderDecoder \<Rightarrow> 't \<Rightarrow> 't \<Rightarrow> 't \<Rightarrow> 't \<Rightarrow> error + 't" where
  "decode self memory src_mask tgt tgt_mask =
     bind_err (tgt_embed self tgt) (\<lambda>e. decoder self e memory src_mask tgt_mask)"

text \<open>
  Lines 139-140: \<open>enc = self.encoder(src, src_mask)\<close> runs the encoder on the token
  tensor itself; then \<open>self.decode\<close> is looked up on the module, which has no such
  attribute (the class defines only \<open>__init__\<close> and \<open>forward\<close>), so the lookup raises
  \<open>AttributeError\<close> before anything is called.
\<close>

definition EncoderDecoder_forward ::
  "'t EncoderDecoder \<Rightarrow> 't \<Rightarrow> 't \<Rightarrow> 't \<Rightarrow> 't \<Rightarrow> error + 't" where
  "EncoderDecoder_forward self src tgt src_mask tgt_mask =
     bind_err (encoder self src src_mask) (\<lambda>enc. Inl AttributeError)"

text \<open>
  The composition the specification gives for the top-level call, written after the
  specification's words, for comparison with \<open>EncoderDecoder_forward\<close>.
\<close>

definition spec_forward ::
  "'t EncoderDecoder \<Rightarrow> 't \<Rightarrow> 't \<Rightarrow> 't \<Rightarrow> 't \<Rightarrow> error + 't" where
  "spec_forward self src tgt src_mask tgt_mask =
     bind_err (src_embed self src) (\<lambda>se.
     bind_err (encoder self se src_mask) (\<lambda>memory.
     bind_err (tgt_embed self tgt) (\<lambda>te.
     bind_err (decoder self te memory src_mask tgt_mask) (\<lambda>d.
     generator self d))))"

text \<open>A model whose five parts all succeed: each adds its own marker to the value.\<close>

definition toy_model :: "nat list EncoderDecoder" where
  "toy_model = \<lparr> encoder = (\<lambda>x m. Inr (1 # x)),
                 decoder = (\<lambda>x mem sm tm. Inr (2 # x @ mem)),
                 src_embed = (\<lambda>x. Inr (3 # x)),
                 tgt_embed = (\<lambda>x. Inr (4 # x)),
                 generator = (\<lambda>x. Inr (5 # x)) \<rparr>"

section \<open>Concrete modules and inputs\<close>

text \<open>
  Modelled from the spec: \<open>get_positional_encoding\<close> of positional_encoding.py, which is
  not among the sources. The table has the shape [max_length, 1, model_dim]; at
  position p, channel 2i holds sin (p / 10000^(2i/model_dim)) and channel 2i+1 the
  cosine of the same argument.
\<close>

definition get_positional_encoding :: "nat \<Rightarrow> nat \<Rightarrow> real tensor" where
  "get_positional_encoding d_model max_len =
     \<lparr> shape = [max_len, 1, d_model],
       elt = (\<lambda>idx. let p = real (idx ! 0); c = idx ! 2;
                         a = p / 10000 powr (real (2 * (c div 2)) / real d_model)
                     in if even c then sin a else cos a) \<rparr>"

definition const_tokens :: "nat list \<Rightarrow> int \<Rightarrow> int tensor" where
  "const_tokens sh t = \<lparr> shape = sh, elt = (\<lambda>idx. t) \<rparr>"

definition zero_linear :: linear_params where
  "zero_linear = \<lparr> w_init = (\<lambda>r c. 0), b_init = (\<lambda>r. 0) \<rparr>"

definition zero_mha :: mha_params where
  "zero_mha = \<lparr> query_params = zero_linear, key_params = zero_linear,
                 value_params = zero_linear, output_params = zero_linear \<rparr>"

text \<open>Which of the three projections of an attention module carry a bias vector.\<close>

definition has_bias :: "Linear \<Rightarrow> bool" where
  "has_bias l = (case bias l of None \<Rightarrow> False | Some b \<Rightarrow> True)"

definition projection_biases :: "MultiHeadAttention \<Rightarrow> bool \<times> bool \<times> bool" where
  "projection_biases m =
     (has_bias (pm_linear (mha_query m)), has_bias (pm_linear (mha_key m)),
      has_bias (pm_linear (mha_value m)))"

definition zero_ff :: ff_params where
  "zero_ff = \<lparr> layer1_params = zero_linear, layer2_params = zero_linear,
                linear_v_params = zero_linear \<rparr>"

definition const_mask :: "nat list \<Rightarrow> int \<Rightarrow> int tensor" where
  "const_mask sh v = \<lparr> shape = sh, elt = (\<lambda>idx. v) \<rparr>"

text \<open>A mask over two keys that keeps the first key and excludes the second.\<close>

definition first_key_only :: "int tensor" where
  "first_key_only = \<lparr> shape = [1, 2, 1], elt = (\<lambda>idx. if idx ! 1 = 0 then 1 else 0) \<rparr>"

definition keep_all :: "nat list \<Rightarrow> bool" where
  "keep_all idx = True"

definition no_noise :: layer_noise where
  "no_noise = \<lparr> keep_self = keep_all, keep_src = keep_all, keep_ff = keep_all \<rparr>"

text \<open>The module that \<open>MultiHeadAttention(heads=1, d_model=1, dropout_prob=0)\<close> builds.\<close>

definition unit_attention :: MultiHeadAttention where
  "unit_attention =
     \<lparr> mha_d_k = 1, mha_heads = 1,
       mha_query = PrepareForMultiHeadAttention_init zero_linear 1 1 1 True,
       mha_key = PrepareForMultiHeadAttention_init zero_linear 1 1 1 True,
       mha_value = PrepareForMultiHeadAttention_init zero_linear 1 1 1 True,
       mha_softmax_dim = 1,
       mha_output = nn_Linear zero_linear 1 1 True,
       mha_dropout = \<lparr> drop_p = 0, training = True \<rparr>,
       mha_scale = 1,
       mha_attn = None \<rparr>"

text \<open>Stand-ins for sub-modules that do return a tensor: each hands back its first input.\<close>

definition echo_attention :: attention where
  "echo_attention query key value msk = Inr (PyTensor query)"

definition echo_feed_forward :: "real tensor \<Rightarrow> error + real tensor pyval" where
  "echo_feed_forward z = Inr (PyTensor z)"

definition echo_layer :: TransformerLayer where
  "echo_layer =
     \<lparr> tl_size = 1,
       self_attn = echo_attention,
       src_attn = Some echo_attention,
       feed_forward = echo_feed_forward,
       tl_dropout = \<lparr> drop_p = 0, training = True \<rparr>,
       norm_self_attn = nn_LayerNorm 1,
       norm_src_attn = Some (nn_LayerNorm 1),
       norm_ff = nn_LayerNorm 1,
       is_save_ff_input = False \<rparr>"

text \<open>Parameters whose weights are all 1, and a tensor whose entries differ.\<close>

definition ones_linear :: linear_params where
  "ones_linear = \<lparr> w_init = (\<lambda>r c. 1), b_init = (\<lambda>r. 0) \<rparr>"

definition ones_mha :: mha_params where
  "ones_mha = \<lparr> query_params = ones_linear, key_params = ones_linear,
                 value_params = ones_linear, output_params = ones_linear \<rparr>"

definition ramp :: "nat list \<Rightarrow> real tensor" where
  "ramp sh = \<lparr> shape = sh, elt = (\<lambda>idx. real (sum_list idx)) \<rparr>"

text \<open>The module that \<open>MultiHeadAttention(heads=2, d_model=2, dropout_prob=0)\<close> builds.\<close>

definition two_head_attention :: MultiHeadAttention where
  "two_head_attention =
     \<lparr> mha_d_k = 1, mha_heads = 2,
       mha_query = PrepareForMultiHeadAttention_init ones_linear 2 2 1 True,
       mha_key = PrepareForMultiHeadAttention_init ones_linear 2 2 1 True,
       mha_value = PrepareForMultiHeadAttention_init ones_linear 2 2 1 True,
       mha_softmax_dim = 1,
       mha_output = nn_Linear ones_linear 2 2 True,
       mha_dropout = \<lparr> drop_p = 0, training = True \<rparr>,
       mha_scale = 1,
       mha_attn = None \<rparr>"

text \<open>The module that \<open>FeedForward(d_model=2, d_ff=4, dropout=0)\<close> builds.\<close>

definition ffn_2_4 :: FeedForward where
  "ffn_2_4 =
     \<lparr> layer1 = nn_Linear ones_linear 2 4 True,
       layer2 = nn_Linear ones_linear 4 2 True,
       ff_dropout = \<lparr> drop_p = 0, training = True \<rparr>,
       activation = ReLU,
       is_gated = False,
       linear_v = None \<rparr>"

text \<open>A feed-forward module as the \<open>feed_forward\<close> argument of a layer: its call returns a tensor.\<close>

definition FeedForward_call ::
  "FeedForward \<Rightarrow> (nat list \<Rightarrow> bool) \<Rightarrow> real tensor \<Rightarrow> error + real tensor pyval" where
  "FeedForward_call ff keep z = bind_err (FeedForward_forward ff keep z) (\<lambda>y. Inr (PyTensor y))"

text \<open>
  The encoder layer that \<open>TransformerLayer(d_model=2, self_attn=..., src_attn=None,
  feed_forward=..., dropout_prob=0)\<close> builds around the two modules above.
\<close>

definition encoder_layer :: TransformerLayer where
  "encoder_layer =
     \<lparr> tl_size = 2,
       self_attn = MultiHeadAttention_forward two_head_attention keep_all,
       src_attn = None,
       feed_forward = FeedForward_call ffn_2_4 keep_all,
       tl_dropout = \<lparr> drop_p = 0, training = True \<rparr>,
       norm_self_attn = nn_LayerNorm 2,
       norm_src_attn = None,
       norm_ff = nn_LayerNorm 2,
       is_save_ff_input = False \<rparr>"

text \<open>A trained learned-variant front end: model_dim 4, vocabulary 3, table of \<open>max_len\<close> rows.\<close>

definition learned_front_end :: "nat \<Rightarrow> EmbeddingsWithLearnedPositionalEncoding" where
  "learned_front_end max_len =
     \<lparr> elpe_linear = nn_Embedding (\<lambda>t c. real t + 1) 3 4,
       elpe_d_model = 4,
       elpe_positional_encodings =
         \<lparr> shape = [max_len, 1, 4], elt = (\<lambda>idx. 10 * real (idx ! 0) + real (idx ! 2)) \<rparr>,
       elpe_requires_grad = True \<rparr>"

section \<open>Notions used in the statements\<close>

text \<open>
  The shape contract of a mask with axes [first, second, third] against a query of
  length \<open>query_len\<close>, a key of length \<open>key_len\<close> and a batch of \<open>batch_size\<close>.
\<close>

definition mask_contract :: "nat list \<Rightarrow> nat \<Rightarrow> nat \<Rightarrow> nat \<Rightarrow> bool" where
  "mask_contract ms query_len key_len batch_size =
     ((ms ! 0 = 1 \<or> ms ! 0 = query_len) \<and> ms ! 1 = key_len
      \<and> (ms ! 2 = 1 \<or> ms ! 2 = batch_size))"

text \<open>
  The entry of a three-axis mask that governs the score of query \<open>i\<close>, key \<open>j\<close> and
  batch element \<open>bb\<close> (in every head): an axis of size 1 is read at position 0.
\<close>

definition mask_entry :: "int tensor \<Rightarrow> nat \<Rightarrow> nat \<Rightarrow> nat \<Rightarrow> int" where
  "mask_entry m i j bb =
     elt m [if shape m ! 0 = 1 then 0 else i, j, if shape m ! 2 = 1 then 0 else bb]"

text \<open>The attention weights of one query, batch element and head, along the key axis.\<close>

definition attn_row :: "aweight tensor \<Rightarrow> nat \<Rightarrow> nat \<Rightarrow> nat \<Rightarrow> nat \<Rightarrow> aweight list" where
  "attn_row a key_len i bb hh = map (\<lambda>j. elt a [i, j, bb, hh]) [0..<key_len]"

section \<open>Theorems\<close>

text \<open>
  C1. The top-level forward is claimed to equal
  generator(decoder(tgt_embed(tgt), encoder(src_embed(src), src_mask), src_mask, tgt_mask)).
  On the code it does not: on a model all of whose parts succeed, the specified
  composition yields a value built by all five parts, while the code's forward gives
  the encoder the un-embedded source tokens and then raises AttributeError; no logits
  are returned.
\<close>

theorem C1_forward_raises_where_spec_returns:
  "spec_forward toy_model [7] [8] [] [] = Inr [5, 2, 4, 8, 1, 3, 7]
   \<and> EncoderDecoder_forward toy_model [7] [8] [] [] = Inl AttributeError"
  by (simp add: spec_forward_def EncoderDecoder_forward_def toy_model_def bind_err_def)

lemma EncoderDecoder_forward_never_returns:
  "EncoderDecoder_forward self src tgt src_mask tgt_mask \<noteq> Inr y"
  by (simp add: EncoderDecoder_forward_def bind_err_def split: sum.splits)

subsection \<open>Indices and broadcasting\<close>

lemma valid_index_Nil [simp]: "valid_index [] idx = (idx = [])"
  by (simp add: valid_index_def)

lemma valid_index_Cons:
  "valid_index (n # ns) idx = (\<exists>i rest. idx = i # rest \<and> i < n \<and> valid_index ns rest)"
  by (cases idx) (auto simp add: valid_index_def)

lemma set_indices: "set (indices sh) = {idx. valid_index sh idx}"
proof (induction sh)
  case Nil
  show ?case by auto
next
  case (Cons n ns)
  show ?case
    by (auto simp add: Cons.IH valid_index_Cons)
qed

lemma valid_index2:
  "valid_index [a, b] idx = (\<exists>i j. idx = [i, j] \<and> i < a \<and> j < b)"
  by (auto simp add: valid_index_Cons)

lemma valid_index3:
  "valid_index [a, b, c] idx = (\<exists>i j k. idx = [i, j, k] \<and> i < a \<and> j < b \<and> k < c)"
  by (auto simp add: valid_index_Cons)

lemma broadcast_dim_same [simp]: "broadcast_dim a a = Some a"
  by (simp add: broadcast_dim_def)

lemma broadcast_dim_one [simp]: "broadcast_dim a 1 = Some a" "broadcast_dim a (Suc 0) = Some a"
  by (simp_all add: broadcast_dim_def)

subsection \<open>Calls that cannot fail on matching shapes\<close>

lemma bind_err_Inl [simp]: "bind_err (Inl e) f = Inl e"
  by (simp add: bind_err_def)

lemma bind_err_Inr [simp]: "bind_err (Inr v) f = f v"
  by (simp add: bind_err_def)

lemma broadcast_rev_same: "broadcast_rev xs xs = Some xs"
  by (induction xs) (simp_all add: broadcast_dim_def)

lemma broadcast_shapes_same [simp]: "broadcast_shapes sh sh = Some sh"
  by (simp add: broadcast_shapes_def broadcast_rev_same)

lemma bindex_valid: "valid_index sh idx \<Longrightarrow> bindex sh idx = idx"
proof (induction sh arbitrary: idx)
  case Nil
  then show ?case by (simp add: bindex_def valid_index_def)
next
  case (Cons n ns)
  then obtain i rest where idx: "idx = i # rest" and i: "i < n" and rest: "valid_index ns rest"
    by (cases idx) (auto simp add: valid_index_def)
  have len: "length rest = length ns"
    using rest by (simp add: valid_index_def list_all2_lengthD)
  have "bindex ns rest = rest" using Cons.IH rest by simp
  then show ?case
    using i len by (auto simp add: bindex_def idx)
qed

lemma tadd_same_shape:
  assumes "shape a = shape b"
  shows "\<exists>c. tadd a b = Inr c \<and> shape c = shape a
           \<and> (\<forall>idx. valid_index (shape a) idx \<longrightarrow> elt c idx = elt a idx + elt b idx)"
  using assms by (simp add: tadd_def bindex_valid)

lemma tmul_same_shape:
  assumes "shape a = shape b"
  shows "\<exists>c. tmul a b = Inr c \<and> shape c = shape a
           \<and> (\<forall>idx. valid_index (shape a) idx \<longrightarrow> elt c idx = elt a idx * elt b idx)"
  using assms by (simp add: tmul_def bindex_valid)

lemma Linear_forward_ok:
  "shape x \<noteq> [] \<Longrightarrow> last (shape x) = in_features l \<Longrightarrow>
   \<exists>y. Linear_forward l x = Inr y \<and> shape y = butlast (shape x) @ [out_features l]"
  by (simp add: Linear_forward_def)

lemma LayerNorm_forward_ok:
  "shape x \<noteq> [] \<Longrightarrow> last (shape x) = normalized_shape nrm \<Longrightarrow>
   \<exists>z. LayerNorm_forward nrm x = Inr z \<and> shape z = shape x"
  by (simp add: LayerNorm_forward_def)

lemma shape_Dropout_forward [simp]: "shape (Dropout_forward d keep t) = shape t"
  by (simp add: Dropout_forward_def)

lemma dropout_call_tensor [simp]:
  "dropout_call d keep (PyTensor t) = Inr (Dropout_forward d keep t)"
  by (simp add: dropout_call_def)

lemma dropout_call_None [simp]: "dropout_call d keep PyNone = Inl TypeError"
  by (simp add: dropout_call_def)

subsection \<open>The feed-forward sublayer\<close>

text \<open>
  C9. For an input whose last axis is model_dim, a feed-forward module built by the
  constructor (with an activation that keeps shapes) returns a tensor whose last axis is
  model_dim again, computed in this order: the hidden projection \<open>h\<close> to ff_dim; the
  activation; with gating, the elementwise product with the second projection
  \<open>linear_v\<close> of the same input, to which no activation is applied; dropout; the output
  projection. Without gating there is no product and the module has no \<open>linear_v\<close>.
\<close>

theorem C9_feed_forward:
  assumes p: "0 \<le> p" "p \<le> 1"
      and x: "shape x \<noteq> []" "last (shape x) = d_model"
      and act: "\<forall>t. shape (act t) = shape t"
  shows "\<exists>self h y.
           FeedForward_init ps d_model d_ff p act gated bias1 bias2 bias_gate = Inr self
         \<and> Linear_forward (layer1 self) x = Inr h
         \<and> shape h = butlast (shape x) @ [d_ff]
         \<and> FeedForward_forward self keep x = Inr y
         \<and> shape y = butlast (shape x) @ [d_model]
         \<and> (gated \<longrightarrow>
              (\<exists>lv v gv. linear_v self = Some lv
                 \<and> Linear_forward lv x = Inr v
                 \<and> tmul (act h) v = Inr gv
                 \<and> shape gv = shape h
                 \<and> (\<forall>idx. valid_index (shape h) idx \<longrightarrow>
                       elt gv idx = elt (act h) idx * elt v idx)
                 \<and> Linear_forward (layer2 self) (Dropout_forward (ff_dropout self) keep gv)
                     = Inr y))
         \<and> (\<not> gated \<longrightarrow>
              linear_v self = None
              \<and> Linear_forward (layer2 self) (Dropout_forward (ff_dropout self) keep (act h))
                  = Inr y)"
proof -
  define l1 where "l1 = nn_Linear (layer1_params ps) d_model d_ff bias1"
  define l2 where "l2 = nn_Linear (layer2_params ps) d_ff d_model bias2"
  define lv where "lv = nn_Linear (linear_v_params ps) d_model d_ff bias_gate"
  define dr where "dr = \<lparr> drop_p = p, training = True \<rparr>"
  define self where "self = \<lparr> layer1 = l1, layer2 = l2, ff_dropout = dr, activation = act,
     is_gated = gated, linear_v = (if gated then Some lv else None) \<rparr>"
  have init: "FeedForward_init ps d_model d_ff p act gated bias1 bias2 bias_gate = Inr self"
    using p by (simp add: FeedForward_init_def nn_Dropout_def self_def l1_def l2_def lv_def dr_def)
  obtain h where h: "Linear_forward l1 x = Inr h" and sh: "shape h = butlast (shape x) @ [d_ff]"
    using Linear_forward_ok [of x l1] x by (auto simp add: l1_def nn_Linear_def)
  obtain v where v: "Linear_forward lv x = Inr v" and sv: "shape v = butlast (shape x) @ [d_ff]"
    using Linear_forward_ok [of x lv] x by (auto simp add: lv_def nn_Linear_def)
  have sact: "shape (act h) = shape v" using act sh sv by simp
  obtain gv where gv: "tmul (act h) v = Inr gv" and sgv: "shape gv = shape (act h)"
    and egv: "\<forall>idx. valid_index (shape (act h)) idx \<longrightarrow> elt gv idx = elt (act h) idx * elt v idx"
    using tmul_same_shape [OF sact] by blast
  define inner where "inner = (if gated then gv else act h)"
  have sinner: "shape inner = butlast (shape x) @ [d_ff]"
    using act sh sgv by (simp add: inner_def)
  have sdrop: "shape (Dropout_forward dr keep inner) = butlast (shape x) @ [d_ff]"
    using sinner by simp
  obtain y where y: "Linear_forward l2 (Dropout_forward dr keep inner) = Inr y"
    and sy: "shape y = butlast (shape x) @ [d_model]"
    using Linear_forward_ok [of "Dropout_forward dr keep inner" l2] sdrop
    by (auto simp add: l2_def nn_Linear_def)
  have fwd: "FeedForward_forward self keep x = Inr y"
    using h v gv y
    by (cases gated) (simp_all add: FeedForward_forward_def self_def inner_def Let_def)
  have gated_part: "gated \<longrightarrow>
              (\<exists>lv v gv. linear_v self = Some lv
                 \<and> Linear_forward lv x = Inr v
                 \<and> tmul (act h) v = Inr gv
                 \<and> shape gv = shape h
                 \<and> (\<forall>idx. valid_index (shape h) idx \<longrightarrow>
                       elt gv idx = elt (act h) idx * elt v idx)
                 \<and> Linear_forward (layer2 self) (Dropout_forward (ff_dropout self) keep gv)
                     = Inr y)"
  proof
    assume g: gated
    have "linear_v self = Some lv" using g by (simp add: self_def)
    moreover have "shape gv = shape h" using sgv act by simp
    moreover have "\<forall>idx. valid_index (shape h) idx \<longrightarrow> elt gv idx = elt (act h) idx * elt v idx"
      using egv act by simp
    moreover have "Linear_forward (layer2 self) (Dropout_forward (ff_dropout self) keep gv) = Inr y"
      using y g by (simp add: self_def inner_def)
    ultimately show "\<exists>lv v gv. linear_v self = Some lv
                 \<and> Linear_forward lv x = Inr v
                 \<and> tmul (act h) v = Inr gv
                 \<and> shape gv = shape h
                 \<and> (\<forall>idx. valid_index (shape h) idx \<longrightarrow>
                       elt gv idx = elt (act h) idx * elt v idx)
                 \<and> Linear_forward (layer2 self) (Dropout_forward (ff_dropout self) keep gv)
                     = Inr y"
      using v gv by blast
  qed
  have plain_part: "\<not> gated \<longrightarrow>
              linear_v self = None
              \<and> Linear_forward (layer2 self) (Dropout_forward (ff_dropout self) keep (act h))
                  = Inr y"
    using y by (cases gated) (simp_all add: self_def inner_def)
  have h': "Linear_forward (layer1 self) x = Inr h" using h by (simp add: self_def)
  show ?thesis
    using init h' sh fwd sy gated_part plain_part by blast
qed

theorem C9_feed_forward_witness:
  "(\<exists>self lv y. FeedForward_init zero_ff 1 2 (1/10) ReLU True True True True = Inr self
       \<and> linear_v self = Some lv
       \<and> FeedForward_forward self keep_all (zeros [3, 1]) = Inr y \<and> shape y = [3, 1])
   \<and> (\<exists>self y. FeedForward_init zero_ff 1 2 (1/10) ReLU False True True True = Inr self
       \<and> linear_v self = None
       \<and> FeedForward_forward self keep_all (zeros [3, 1]) = Inr y \<and> shape y = [3, 1])"
proof -
  have relu: "\<forall>t. shape (ReLU t) = shape t"
    by (simp add: ReLU_def)
  have x: "shape (zeros [3, 1]) \<noteq> []" "last (shape (zeros [3, 1])) = 1"
    by (simp_all add: zeros_def)
  have p: "(0::real) \<le> 1/10" "(1::real)/10 \<le> 1"
    by simp_all
  have sh: "butlast (shape (zeros [3, 1])) @ [1] = [3, 1]"
    by (simp add: zeros_def)
  have gated: "\<exists>self lv y. FeedForward_init zero_ff 1 2 (1/10) ReLU True True True True = Inr self
       \<and> linear_v self = Some lv
       \<and> FeedForward_forward self keep_all (zeros [3, 1]) = Inr y \<and> shape y = [3, 1]"
    using C9_feed_forward [OF p x relu, where ps = zero_ff and d_ff = 2 and gated = True
        and ?bias1.0 = True and ?bias2.0 = True and bias_gate = True and keep = keep_all]
    unfolding sh by blast
  have plain: "\<exists>self y. FeedForward_init zero_ff 1 2 (1/10) ReLU False True True True = Inr self
       \<and> linear_v self = None
       \<and> FeedForward_forward self keep_all (zeros [3, 1]) = Inr y \<and> shape y = [3, 1]"
    using C9_feed_forward [OF p x relu, where ps = zero_ff and d_ff = 2 and gated = False
        and ?bias1.0 = True and ?bias2.0 = True and bias_gate = True and keep = keep_all]
    unfolding sh by blast
  show ?thesis using gated plain by simp
qed

subsection \<open>The embedding front ends\<close>

lemma fixed_forward_raises:
  "shape x \<noteq> [] \<Longrightarrow> shape (epe_positional_encodings self) \<noteq> [] \<Longrightarrow>
   EmbeddingsWithPositionalEncoding_forward self x = Inl AttributeError"
  by (auto simp add: EmbeddingsWithPositionalEncoding_forward_def bind_err_def shape_at_def
      slice_to_def split: list.splits)

text \<open>
  What the learned variant computes when gradient recording is off and the sequence
  fits the table: the looked-up rows times sqrt(model_dim) plus the first rows of the
  table, the one table row of a position being shared by the whole batch.
\<close>

lemma learned_forward_formula:
  assumes x: "shape x = [s, b]"
      and pe: "shape (elpe_positional_encodings self) = [m, 1, d]"
      and dim: "embedding_dim (elpe_linear self) = d"
      and len: "s \<le> m"
      and tok: "\<forall>i<s. \<forall>j<b. 0 \<le> elt x [i, j]
                  \<and> elt x [i, j] < int (num_embeddings (elpe_linear self))"
      and grad: "\<not> (grad_enabled \<and> elpe_requires_grad self)"
  shows "\<exists>y. EmbeddingsWithLearnedPositionalEncoding_forward self grad_enabled x = Inr y
           \<and> shape y = [s, b, d]
           \<and> (\<forall>i<s. \<forall>j<b. \<forall>c<d.
                 elt y [i, j, c]
                   = emb_weight (elpe_linear self) (nat (elt x [i, j])) c
                       * sqrt (real (elpe_d_model self))
                     + elt (elpe_positional_encodings self) [i, 0, c])"
proof -
  have rng: "list_all (\<lambda>idx. 0 \<le> elt x idx \<and> elt x idx < int (num_embeddings (elpe_linear self)))
               (indices (shape x))"
    using tok by (auto simp add: list_all_iff set_indices x valid_index2)
  have emb: "Embedding_forward (elpe_linear self) x
               = Inr \<lparr> shape = [s, b, d],
                       elt = (\<lambda>idx. emb_weight (elpe_linear self) (nat (elt x (butlast idx)))
                                      (last idx)) \<rparr>"
    using rng by (simp add: Embedding_forward_def x dim)
  have sl: "slice_to (elpe_positional_encodings self) s
              = Inr \<lparr> shape = [s, 1, d], elt = elt (elpe_positional_encodings self) \<rparr>"
    using len by (simp add: slice_to_def pe min_def)
  have bc: "broadcast_shapes [s, b, d] [s, Suc 0, d] = Some [s, b, d]"
    by (simp add: broadcast_shapes_def)
  show ?thesis
    using grad
    by (auto simp add: EmbeddingsWithLearnedPositionalEncoding_forward_def bind_err_def
        shape_at_def x emb sl tadd_def tscale_def bc bindex_def)
qed

text \<open>
  C5. Both embedding front ends are claimed to return
  table_lookup(indices) * sqrt(model_dim) + positional_encoding[:sequence_length].
  The fixed variant does not: on a one-token input well inside the table (model_dim 2,
  vocabulary 10, max_length 5) its forward raises AttributeError, because line 21 calls
  the misspelt method required_grad_ on the slice of the table.
\<close>

theorem C5_fixed_variant_raises:
  "EmbeddingsWithPositionalEncoding_forward
     (EmbeddingsWithPositionalEncoding_init get_positional_encoding (\<lambda>t c. 0) 2 10 5)
     (const_tokens [1, 1] 0) = Inl AttributeError"
  by (simp add: EmbeddingsWithPositionalEncoding_forward_def
      EmbeddingsWithPositionalEncoding_init_def get_positional_encoding_def const_tokens_def
      bind_err_def shape_at_def slice_to_def)

text \<open>
  C7, as claimed: every input longer than the positional table makes the front end
  raise. Refuted on the learned variant with a table of max_length 1 and a sequence of
  length 2 (gradient recording off): the call returns a tensor of shape [2, 1, 1], the
  single table row having been broadcast to both positions.
\<close>

theorem C7_counterexample:
  "map_sum id shape
     (EmbeddingsWithLearnedPositionalEncoding_forward
        (EmbeddingsWithLearnedPositionalEncoding_init (\<lambda>t c. 0) 1 1 1) False
        (const_tokens [2, 1] 0)) = Inr [2, 1, 1]"
  by (simp add: EmbeddingsWithLearnedPositionalEncoding_forward_def
      EmbeddingsWithLearnedPositionalEncoding_init_def const_tokens_def zeros_def nn_Embedding_def
      bind_err_def shape_at_def slice_to_def Embedding_forward_def tadd_def tscale_def
      broadcast_shapes_def broadcast_dim_def list_all_iff)

text \<open>
  C7, amended: the code has no length check. For the learned variant called with
  gradient recording off on a token input of shape [sequence_length, batch_size] whose
  tokens lie in the vocabulary and whose sequence_length exceeds max_length, the slice of
  the table is clipped to max_length rows without an error, and what happens next is
  decided by the broadcasting rules of the addition alone: with max_length at least 2
  the call raises RuntimeError; with max_length 1 it raises nothing and returns the
  [sequence_length, batch_size, model_dim] tensor in which every position has received
  row 0 of the table; with an empty table it raises for sequence_length at least 2 and
  returns an empty tensor for sequence_length 1. Nothing is stated here about the fixed
  variant or about calls with gradient recording on.
\<close>

theorem C7_learned_too_long:
  assumes x: "shape x = [s, b]"
      and pe: "shape (elpe_positional_encodings self) = [m, 1, d]"
      and dim: "embedding_dim (elpe_linear self) = d"
      and tok: "\<forall>i<s. \<forall>j<b. 0 \<le> elt x [i, j]
                  \<and> elt x [i, j] < int (num_embeddings (elpe_linear self))"
      and grad: "\<not> (grad_enabled \<and> elpe_requires_grad self)"
      and len: "m < s"
  shows "(2 \<le> m \<longrightarrow>
            EmbeddingsWithLearnedPositionalEncoding_forward self grad_enabled x = Inl RuntimeError)
       \<and> (m = 1 \<longrightarrow>
            (\<exists>y. EmbeddingsWithLearnedPositionalEncoding_forward self grad_enabled x = Inr y
               \<and> shape y = [s, b, d]
               \<and> (\<forall>i<s. \<forall>j<b. \<forall>c<d.
                     elt y [i, j, c]
                       = emb_weight (elpe_linear self) (nat (elt x [i, j])) c
                           * sqrt (real (elpe_d_model self))
                         + elt (elpe_positional_encodings self) [0, 0, c])))
       \<and> (m = 0 \<longrightarrow>
            (2 \<le> s \<longrightarrow>
               EmbeddingsWithLearnedPositionalEncoding_forward self grad_enabled x
                 = Inl RuntimeError)
            \<and> (s = 1 \<longrightarrow>
               (\<exists>y. EmbeddingsWithLearnedPositionalEncoding_forward self grad_enabled x = Inr y
                  \<and> shape y = [0, b, d])))"
proof -
  have rng: "list_all (\<lambda>idx. 0 \<le> elt x idx \<and> elt x idx < int (num_embeddings (elpe_linear self)))
               (indices (shape x))"
    using tok by (auto simp add: list_all_iff set_indices x valid_index2)
  have emb: "Embedding_forward (elpe_linear self) x
               = Inr \<lparr> shape = [s, b, d],
                       elt = (\<lambda>idx. emb_weight (elpe_linear self) (nat (elt x (butlast idx)))
                                      (last idx)) \<rparr>"
    using rng by (simp add: Embedding_forward_def x dim)
  have sl: "slice_to (elpe_positional_encodings self) s
              = Inr \<lparr> shape = [m, 1, d], elt = elt (elpe_positional_encodings self) \<rparr>"
    using len by (simp add: slice_to_def pe min_def)
  have g: "(grad_enabled \<and> elpe_requires_grad self) = False"
    using grad by simp
  have fwd: "EmbeddingsWithLearnedPositionalEncoding_forward self grad_enabled x
               = tadd \<lparr> shape = [s, b, d],
                        elt = (\<lambda>idx. emb_weight (elpe_linear self) (nat (elt x (butlast idx)))
                                       (last idx) * sqrt (real (elpe_d_model self))) \<rparr>
                      \<lparr> shape = [m, 1, d], elt = elt (elpe_positional_encodings self) \<rparr>"
    by (simp add: EmbeddingsWithLearnedPositionalEncoding_forward_def shape_at_def x sl g emb
        tscale_def)
  have big: "EmbeddingsWithLearnedPositionalEncoding_forward self grad_enabled x = Inl RuntimeError"
    if "broadcast_dim s m = None"
  proof -
    have "broadcast_shapes [s, b, d] [m, Suc 0, d] = None"
      using that by (simp add: broadcast_shapes_def split: option.splits)
    then show ?thesis by (simp add: fwd tadd_def)
  qed
  have c2: "2 \<le> m \<longrightarrow>
            EmbeddingsWithLearnedPositionalEncoding_forward self grad_enabled x = Inl RuntimeError"
    using len by (auto intro!: big simp add: broadcast_dim_def)
  have c0a: "m = 0 \<longrightarrow> 2 \<le> s \<longrightarrow>
            EmbeddingsWithLearnedPositionalEncoding_forward self grad_enabled x = Inl RuntimeError"
    by (auto intro!: big simp add: broadcast_dim_def)
  have c1: "m = 1 \<longrightarrow>
            (\<exists>y. EmbeddingsWithLearnedPositionalEncoding_forward self grad_enabled x = Inr y
               \<and> shape y = [s, b, d]
               \<and> (\<forall>i<s. \<forall>j<b. \<forall>c<d.
                     elt y [i, j, c]
                       = emb_weight (elpe_linear self) (nat (elt x [i, j])) c
                           * sqrt (real (elpe_d_model self))
                         + elt (elpe_positional_encodings self) [0, 0, c]))"
  proof
    assume m1: "m = 1"
    have bc: "broadcast_shapes [s, b, d] [Suc 0, Suc 0, d] = Some [s, b, d]"
      by (simp add: broadcast_shapes_def)
    show "\<exists>y. EmbeddingsWithLearnedPositionalEncoding_forward self grad_enabled x = Inr y
               \<and> shape y = [s, b, d]
               \<and> (\<forall>i<s. \<forall>j<b. \<forall>c<d.
                     elt y [i, j, c]
                       = emb_weight (elpe_linear self) (nat (elt x [i, j])) c
                           * sqrt (real (elpe_d_model self))
                         + elt (elpe_positional_encodings self) [0, 0, c])"
      using len m1 by (auto simp add: fwd tadd_def bc bindex_def)
  qed
  have c0b: "m = 0 \<longrightarrow> s = 1 \<longrightarrow>
               (\<exists>y. EmbeddingsWithLearnedPositionalEncoding_forward self grad_enabled x = Inr y
                  \<and> shape y = [0, b, d])"
    by (auto simp add: fwd tadd_def broadcast_shapes_def broadcast_dim_def)
  show ?thesis using c2 c1 c0a c0b by blast
qed

theorem C7_learned_too_long_witness:
  "EmbeddingsWithLearnedPositionalEncoding_forward (learned_front_end 2) False
     (const_tokens [3, 2] 1) = Inl RuntimeError
   \<and> (\<exists>y. EmbeddingsWithLearnedPositionalEncoding_forward (learned_front_end 1) False
             (const_tokens [3, 2] 1) = Inr y
        \<and> shape y = [3, 2, 4] \<and> elt y [2, 1, 3] = 7)
   \<and> (\<exists>y. EmbeddingsWithLearnedPositionalEncoding_forward (learned_front_end 0) False
             (const_tokens [1, 2] 1) = Inr y
        \<and> shape y = [0, 2, 4])"
proof -
  have tok: "\<forall>i<s. \<forall>j<2. 0 \<le> elt (const_tokens [s, 2] 1) [i, j]
               \<and> elt (const_tokens [s, 2] 1) [i, j]
                   < int (num_embeddings (elpe_linear (learned_front_end n)))" for s n
    by (simp add: const_tokens_def learned_front_end_def nn_Embedding_def)
  have x: "shape (const_tokens [s, 2] 1) = [s, 2]" for s
    by (simp add: const_tokens_def)
  have pe: "shape (elpe_positional_encodings (learned_front_end n)) = [n, 1, 4]" for n
    by (simp add: learned_front_end_def)
  have dim: "embedding_dim (elpe_linear (learned_front_end n)) = 4" for n
    by (simp add: learned_front_end_def nn_Embedding_def)
  have grad: "\<not> (False \<and> elpe_requires_grad (learned_front_end n))" for n
    by simp
  note t2 = C7_learned_too_long [OF x pe dim tok grad, of 2 3]
  note t1 = C7_learned_too_long [OF x pe dim tok grad, of 1 3]
  note t0 = C7_learned_too_long [OF x pe dim tok grad, of 0 1]
  have p2: "EmbeddingsWithLearnedPositionalEncoding_forward (learned_front_end 2) False
     (const_tokens [3, 2] 1) = Inl RuntimeError"
    using t2 by simp
  have "\<exists>y. EmbeddingsWithLearnedPositionalEncoding_forward (learned_front_end 1) False
             (const_tokens [3, 2] 1) = Inr y
        \<and> shape y = [3, 2, 4]
        \<and> (\<forall>i<3. \<forall>j<2. \<forall>c<4.
                     elt y [i, j, c]
                       = emb_weight (elpe_linear (learned_front_end 1))
                           (nat (elt (const_tokens [3, 2] 1) [i, j])) c
                           * sqrt (real (elpe_d_model (learned_front_end 1)))
                         + elt (elpe_positional_encodings (learned_front_end 1)) [0, 0, c])"
    using t1 by simp
  then obtain y where y: "EmbeddingsWithLearnedPositionalEncoding_forward (learned_front_end 1)
      False (const_tokens [3, 2] 1) = Inr y" and sy: "shape y = [3, 2, 4]"
    and ey: "\<forall>i<3. \<forall>j<2. \<forall>c<4.
                     elt y [i, j, c]
                       = emb_weight (elpe_linear (learned_front_end 1))
                           (nat (elt (const_tokens [3, 2] 1) [i, j])) c
                           * sqrt (real (elpe_d_model (learned_front_end 1)))
                         + elt (elpe_positional_encodings (learned_front_end 1)) [0, 0, c]"
    by (elim exE conjE) (rule that, assumption+)
  have "elt y [2, 1, 3]
          = emb_weight (elpe_linear (learned_front_end 1))
              (nat (elt (const_tokens [3, 2] 1) [2, 1])) 3
              * sqrt (real (elpe_d_model (learned_front_end 1)))
            + elt (elpe_positional_encodings (learned_front_end 1)) [0, 0, 3]"
    using ey by simp
  then have "elt y [2, 1, 3] = 7"
    by (simp add: learned_front_end_def nn_Embedding_def const_tokens_def)
  then have p1: "\<exists>y. EmbeddingsWithLearnedPositionalEncoding_forward (learned_front_end 1) False
             (const_tokens [3, 2] 1) = Inr y
        \<and> shape y = [3, 2, 4] \<and> elt y [2, 1, 3] = 7"
    using y sy by (intro exI conjI)
  have p0: "\<exists>y. EmbeddingsWithLearnedPositionalEncoding_forward (learned_front_end 0) False
             (const_tokens [1, 2] 1) = Inr y
        \<and> shape y = [0, 2, 4]"
    using t0 by simp
  show ?thesis using p2 p1 p0 by (intro conjI)
qed

subsection \<open>Construction of the attention module\<close>

text \<open>
  C10. The claim has the query and key projections built without a bias when the
  constructor is called with bias=False. On the code all three projections carry a bias
  after MultiHeadAttention(heads=1, d_model=1, dropout_prob=0.1, bias=False):
  PrepareForMultiHeadAttention receives the argument and does not hand it to nn.Linear.
\<close>

theorem C10_bias_false_ignored:
  "map_sum id projection_biases (MultiHeadAttention_init zero_mha 1 1 (1/10) False)
     = Inr (True, True, True)"
  by (simp add: MultiHeadAttention_init_def PrepareForMultiHeadAttention_init_def
      nn_Linear_def nn_Dropout_def bind_err_def projection_biases_def has_bias_def Let_def)

lemma init_projection_biases:
  "MultiHeadAttention_init ps heads d_model p b = Inr m \<Longrightarrow>
   projection_biases m = (True, True, True)"
  by (auto simp add: MultiHeadAttention_init_def PrepareForMultiHeadAttention_init_def
      nn_Linear_def nn_Dropout_def bind_err_def projection_biases_def has_bias_def Let_def
      split: if_splits)

text \<open>
  C6, as claimed: construction fails whenever model_dim is not divisible by heads.
  Refuted at model_dim 5, heads 2: construction succeeds, with head_dim 2.
\<close>

theorem C6_counterexample:
  "(5::nat) mod 2 = 1 \<and>
   map_sum id mha_d_k (MultiHeadAttention_init zero_mha 2 5 (1/10) True) = Inr 2"
  by (simp add: MultiHeadAttention_init_def nn_Dropout_def bind_err_def Let_def)

text \<open>
  C6, amended: construction makes no divisibility test. For 1 \<le> heads \<le> model_dim
  and a dropout probability in [0, 1] it succeeds and fixes head_dim as the integer
  quotient of model_dim by heads; when model_dim % heads = 0 that is exactly
  model_dim / heads, so heads * head_dim = model_dim.
\<close>

theorem C6_head_dim:
  assumes "0 < heads" and "heads \<le> d_model" and "0 \<le> p" and "p \<le> 1"
  shows "\<exists>m. MultiHeadAttention_init ps heads d_model p b = Inr m
           \<and> mha_d_k m = d_model div heads
           \<and> (d_model mod heads = 0 \<longrightarrow> mha_heads m * mha_d_k m = d_model)"
proof -
  have dk: "d_model div heads \<noteq> 0"
    using assms(1,2) by (simp add: div_eq_0_iff)
  show ?thesis
    using assms dk
    by (auto simp add: MultiHeadAttention_init_def nn_Dropout_def bind_err_def Let_def)
qed

theorem C6_head_dim_witness:
  "\<exists>m. MultiHeadAttention_init zero_mha 2 4 (1/10) True = Inr m
           \<and> mha_d_k m = 2 \<and> mha_heads m * mha_d_k m = 4"
  using C6_head_dim [of 2 4 "1/10" zero_mha True] by simp

subsection \<open>The mask contract of the attention module\<close>

lemma prepare_mask_reject:
  assumes "3 \<le> length (shape msk)" and "\<not> mask_contract (shape msk) lq lk b"
  shows "prepare_mask msk (lq # b # qrest) (lk # krest) = Inl AssertionError"
  using assms
  by (auto simp add: prepare_mask_def shape_at_def mask_contract_def)

lemma prepare_mask_accept:
  assumes "3 \<le> length (shape msk)" and "mask_contract (shape msk) lq lk b"
  shows "prepare_mask msk (lq # b # qrest) (lk # krest) = Inr (unsqueeze_last msk)"
  using assms
  by (auto simp add: prepare_mask_def shape_at_def mask_contract_def)

lemma Prepare_forward_shape:
  "PrepareForMultiHeadAttention_forward P x = Inr y \<Longrightarrow>
   shape y = butlast (shape x) @ [pm_heads P, pm_d_k P]"
  by (auto simp add: PrepareForMultiHeadAttention_forward_def Let_def bind_err_def
      view_heads_def split: sum.splits if_splits)

lemma attn_weights_reject:
  assumes "3 \<le> length (shape msk)" and "\<not> mask_contract (shape msk) lq lk b"
      and "shape q = lq # b # qrest" and "shape k = lk # krest"
  shows "\<exists>e. attn_weights self q k (Some msk) = Inl e"
proof (cases "get_scores q k")
  case (Inl e)
  then show ?thesis by (simp add: attn_weights_def)
next
  case (Inr s)
  then show ?thesis
    using prepare_mask_reject [OF assms(1,2), of qrest krest]
    by (simp add: attn_weights_def assms(3,4) Let_def)
qed

lemma forward_reject:
  assumes rank: "3 \<le> length (shape msk)" and bad: "\<not> mask_contract (shape msk) lq lk b"
      and q: "shape query = [lq, b, dm]" and k: "shape key = [lk, bk, dk]"
  shows "\<exists>e. MultiHeadAttention_forward self keep query key val (Some msk) = Inl e"
proof (cases "PrepareForMultiHeadAttention_forward (mha_query self) query")
  case (Inl e)
  then show ?thesis by (simp add: MultiHeadAttention_forward_def q)
next
  case q': (Inr q')
  show ?thesis
  proof (cases "PrepareForMultiHeadAttention_forward (mha_key self) key")
    case (Inl e)
    then show ?thesis by (simp add: MultiHeadAttention_forward_def q q')
  next
    case k': (Inr k')
    show ?thesis
    proof (cases "PrepareForMultiHeadAttention_forward (mha_value self) val")
      case (Inl e)
      then show ?thesis by (simp add: MultiHeadAttention_forward_def q q' k')
    next
      case v': (Inr v')
      have sq: "shape q' = lq # b # [pm_heads (mha_query self), pm_d_k (mha_query self)]"
        using Prepare_forward_shape [OF q'] by (simp add: q)
      have sk: "shape k' = lk # [bk, pm_heads (mha_key self), pm_d_k (mha_key self)]"
        using Prepare_forward_shape [OF k'] by (simp add: k)
      obtain e where "attn_weights self q' k' (Some msk) = Inl e"
        using attn_weights_reject [OF rank bad sq sk] by blast
      then show ?thesis
        by (simp add: MultiHeadAttention_forward_def q q' k' v')
    qed
  qed
qed

lemma accepted_mask_broadcasts:
  assumes "length ms = 3" and "mask_contract ms lq lk b"
  shows "broadcastable_to (ms @ [1]) [lq, lk, b, h]"
proof -
  obtain m0 m1 m2 where ms: "ms = [m0, m1, m2]"
    using assms(1) by (auto simp add: length_Suc_conv eval_nat_numeral)
  show ?thesis
    using assms(2) by (auto simp add: ms mask_contract_def broadcastable_to_def)
qed

lemma unit_attention_init: "MultiHeadAttention_init zero_mha 1 1 0 True = Inr unit_attention"
  by (simp add: MultiHeadAttention_init_def nn_Dropout_def Let_def zero_mha_def
      unit_attention_def)

text \<open>
  C8. A three-axis mask whose first axis is neither 1 nor query_len, or whose second
  axis is not key_len, or whose third axis is neither 1 nor batch_size, is rejected:
  \<open>prepare_mask\<close> raises AssertionError on the projected shapes, and the forward call
  with that mask raises, so that no attention weights are computed from it. A mask
  that meets the contract is returned with a new last axis of size 1, and in that
  shape it is broadcastable to the scores [query_len, key_len, batch_size, heads].
\<close>

theorem C8_mask_contract:
  assumes rank: "length (shape msk) = 3"
      and q: "shape query = [lq, b, dm]" and k: "shape key = [lk, bk, dk]"
  shows "(\<not> mask_contract (shape msk) lq lk b \<longrightarrow>
            prepare_mask msk [lq, b, h, d] [lk, bk, h, d] = Inl AssertionError
            \<and> (\<exists>e. MultiHeadAttention_forward self keep query key val (Some msk) = Inl e))
       \<and> (mask_contract (shape msk) lq lk b \<longrightarrow>
            prepare_mask msk [lq, b, h, d] [lk, bk, h, d] = Inr (unsqueeze_last msk)
            \<and> shape (unsqueeze_last msk) = shape msk @ [1]
            \<and> broadcastable_to (shape (unsqueeze_last msk)) [lq, lk, b, h])"
proof -
  have r3: "3 \<le> length (shape msk)" using rank by simp
  show ?thesis
    using prepare_mask_reject [OF r3, of lq lk b "[h, d]" "[bk, h, d]"]
      prepare_mask_accept [OF r3, of lq lk b "[h, d]" "[bk, h, d]"]
      forward_reject [OF r3 _ q k, of self keep val]
      accepted_mask_broadcasts [OF rank, of lq lk b h]
    by (auto simp add: unsqueeze_last_def)
qed

theorem C8_mask_contract_witness:
  "prepare_mask (const_mask [2, 1, 1] 1) [1, 1, 1, 1] [1, 1, 1, 1] = Inl AssertionError
   \<and> (\<exists>e. MultiHeadAttention_forward unit_attention keep_all
             (zeros [1, 1, 1]) (zeros [1, 1, 1]) (zeros [1, 1, 1])
             (Some (const_mask [2, 1, 1] 1)) = Inl e)
   \<and> prepare_mask (const_mask [1, 1, 1] 1) [1, 1, 1, 1] [1, 1, 1, 1]
       = Inr (unsqueeze_last (const_mask [1, 1, 1] 1))
   \<and> broadcastable_to (shape (unsqueeze_last (const_mask [1, 1, 1] 1))) [1, 1, 1, 1]"
proof -
  have z: "shape (zeros [1, 1, 1]) = [1, 1, 1]"
    by (simp add: zeros_def)
  have bad: "length (shape (const_mask [2, 1, 1] 1)) = 3"
    "\<not> mask_contract (shape (const_mask [2, 1, 1] 1)) 1 1 1"
    by (simp_all add: const_mask_def mask_contract_def)
  have good: "length (shape (const_mask [1, 1, 1] 1)) = 3"
    "mask_contract (shape (const_mask [1, 1, 1] 1)) 1 1 1"
    by (simp_all add: const_mask_def mask_contract_def)
  show ?thesis
    using C8_mask_contract [OF bad(1) z z, where h = 1 and d = 1 and self = unit_attention
        and keep = keep_all and val = "zeros [1, 1, 1]"]
      C8_mask_contract [OF good(1) z z, where h = 1 and d = 1 and self = unit_attention
        and keep = keep_all and val = "zeros [1, 1, 1]"]
      bad(2) good(2)
    by (simp add: broadcastable_to_def const_mask_def)
qed

subsection \<open>What the attention module returns\<close>

lemma MultiHeadAttention_forward_never_tensor:
  "MultiHeadAttention_forward self keep query key val msk \<noteq> Inr (PyTensor t)"
  by (auto simp add: MultiHeadAttention_forward_def bind_err_def Let_def split: sum.splits)

text \<open>
  C2. The forward of the attention module is claimed to return a tensor of shape
  [len_q, batch, model_dim]: the combination of the values, heads merged, passed through
  the output projection. On the code, the module built by
  MultiHeadAttention(heads=1, d_model=1, dropout_prob=0) and called with query, key and
  value of shape [1, 1, 1] and no mask returns None: the body of forward stops after the
  einsum that combines the values, without merging the heads, without the output
  projection and without a return statement.
\<close>

theorem C2_forward_returns_None:
  "MultiHeadAttention_init zero_mha 1 1 0 True = Inr unit_attention
   \<and> MultiHeadAttention_forward unit_attention keep_all
       (zeros [1, 1, 1]) (zeros [1, 1, 1]) (zeros [1, 1, 1]) None = Inr PyNone"
  by (simp add: MultiHeadAttention_init_def PrepareForMultiHeadAttention_init_def
      nn_Linear_def nn_Dropout_def Let_def zero_mha_def zero_linear_def unit_attention_def
      MultiHeadAttention_forward_def PrepareForMultiHeadAttention_forward_def
      Linear_forward_def view_heads_def zeros_def attn_weights_def get_scores_def
      einsum_ibhd_jbhd_def tscale_def unmasked_def Softmax_forward_def Dropout_forward_w_def
      einsum_ijbh_jbhd_def)

subsection \<open>The softmax over the key axis\<close>

lemma wsum_Wt: "wsum (map (\<lambda>x. Wt (f x)) xs) = Wt (\<Sum>x\<leftarrow>xs. f x)"
  by (induction xs) (simp_all add: wsum_def)

lemma sum_list_divide: "(\<Sum>x\<leftarrow>xs. f x / (c::real)) = (\<Sum>x\<leftarrow>xs. f x) / c"
  by (induction xs) (simp_all add: add_divide_distrib)

lemma expo_nonneg: "0 \<le> expo x"
  by (cases x) simp_all

lemma expo_pos: "x \<noteq> NegInf \<Longrightarrow> 0 < expo x"
  by (cases x) simp_all

lemma sum_expo_pos:
  assumes "\<not> list_all (\<lambda>x. x = NegInf) xs"
  shows "0 < (\<Sum>x\<leftarrow>xs. expo x)"
  using assms
proof (induction xs)
  case Nil
  then show ?case by simp
next
  case (Cons x xs)
  have nn: "0 \<le> (\<Sum>y\<leftarrow>xs. expo y)"
    by (rule sum_list_nonneg) (auto simp add: expo_nonneg)
  show ?case
  proof (cases "x = NegInf")
    case True
    then show ?thesis using Cons by simp
  next
    case False
    then show ?thesis using nn expo_pos [of x] by simp
  qed
qed

lemma length_softmax_row [simp]: "length (softmax_row xs) = length xs"
  by (simp add: softmax_row_def)

lemma softmax_row_sums_to_one:
  assumes "\<not> list_all (\<lambda>x. x = NegInf) xs"
  shows "wsum (softmax_row xs) = Wt 1"
proof -
  have "0 < (\<Sum>x\<leftarrow>xs. expo x)" using assms by (rule sum_expo_pos)
  then show ?thesis
    using assms by (simp add: softmax_row_def wsum_Wt sum_list_divide)
qed

lemma softmax_row_masked_zero:
  assumes "\<not> list_all (\<lambda>x. x = NegInf) xs" and "j < length xs" and "xs ! j = NegInf"
  shows "softmax_row xs ! j = Wt 0"
  using assms by (simp add: softmax_row_def)

lemma softmax_row_all_masked:
  assumes "list_all (\<lambda>x. x = NegInf) xs" and "j < length xs"
  shows "softmax_row xs ! j = NaN"
  using assms by (simp add: softmax_row_def)

lemma get_scores_shape:
  assumes "shape q = [lq, b, h, d]" and "shape k = [lk, b, h, d]"
  shows "\<exists>s. get_scores q k = Inr s \<and> shape s = [lq, lk, b, h]"
  using assms by (simp add: get_scores_def einsum_ibhd_jbhd_def)

lemma init_softmax_dim:
  "MultiHeadAttention_init ps heads d_model p bias_arg = Inr self \<Longrightarrow> mha_softmax_dim self = 1"
  by (auto simp add: MultiHeadAttention_init_def nn_Dropout_def bind_err_def Let_def
      split: if_splits)

text \<open>Without a mask, each row of weights is the softmax of the scaled scores of that row.\<close>

lemma attn_weights_unmasked:
  assumes q: "shape q = [lq, b, h, d]" and k: "shape k = [lk, b, h, d]"
      and ax: "mha_softmax_dim self = 1"
  shows "\<exists>s a. get_scores q k = Inr s
           \<and> attn_weights self q k None = Inr a \<and> shape a = [lq, lk, b, h]
           \<and> (\<forall>i bb hh. attn_row a lk i bb hh
                 = softmax_row (map (\<lambda>j. Fin (elt s [i, j, bb, hh] * mha_scale self)) [0..<lk]))"
proof -
  obtain s where s: "get_scores q k = Inr s" and ss: "shape s = [lq, lk, b, h]"
    using get_scores_shape [OF q k] by blast
  define row where
    "row = (\<lambda>i bb hh. map (\<lambda>j. Fin (elt s [i, j, bb, hh] * mha_scale self)) [0..<lk])"
  define a where "a = \<lparr> shape = [lq, lk, b, h],
     elt = (\<lambda>idx. softmax_row (map (\<lambda>j. Fin (elt s (idx[1 := j]) * mha_scale self)) [0..<lk])
                     ! (idx ! 1)) \<rparr>"
  have aw: "attn_weights self q k None = Inr a"
    by (simp add: attn_weights_def s Let_def unmasked_def tscale_def Softmax_forward_def ss ax a_def)
  have "attn_row a lk i bb hh = softmax_row (row i bb hh)" for i bb hh
  proof -
    have "attn_row a lk i bb hh = map (\<lambda>j. softmax_row (row i bb hh) ! j) [0..<lk]"
      by (simp add: attn_row_def a_def row_def)
    also have "\<dots> = map (\<lambda>j. softmax_row (row i bb hh) ! j)
                       [0..<length (softmax_row (row i bb hh))]"
      by (simp add: row_def)
    also have "\<dots> = softmax_row (row i bb hh)"
      by (rule map_nth)
    finally show ?thesis .
  qed
  then show ?thesis using s aw by (auto simp add: a_def row_def)
qed

text \<open>
  With an accepted mask, the score of a position whose mask entry is 0 is replaced by
  minus infinity before the softmax of its row.
\<close>

lemma attn_weights_masked:
  assumes q: "shape q = [lq, b, h, d]" and k: "shape k = [lk, b, h, d]"
      and ax: "mha_softmax_dim self = 1"
      and rank: "length (shape m) = 3" and ok: "mask_contract (shape m) lq lk b"
  shows "\<exists>s a. get_scores q k = Inr s
           \<and> attn_weights self q k (Some m) = Inr a \<and> shape a = [lq, lk, b, h]
           \<and> (\<forall>i bb hh. attn_row a lk i bb hh
                 = softmax_row (map (\<lambda>j. if mask_entry m i j bb = 0 then NegInf
                                          else Fin (elt s [i, j, bb, hh] * mha_scale self))
                                 [0..<lk]))"
proof -
  obtain s where s: "get_scores q k = Inr s" and ss: "shape s = [lq, lk, b, h]"
    using get_scores_shape [OF q k] by blast
  obtain m0 m1 m2 where ms: "shape m = [m0, m1, m2]"
    using rank by (auto simp add: length_Suc_conv eval_nat_numeral)
  have m1: "m1 = lk" using ok by (simp add: ms mask_contract_def)
  have pm: "prepare_mask m (shape q) (shape k) = Inr (unsqueeze_last m)"
    using prepare_mask_accept [of m lq lk b "[h, d]" "[b, h, d]"] rank ok by (simp add: q k)
  have bc: "broadcastable_to (shape (unsqueeze_last m)) [lq, lk, b, h]"
    using ok by (auto simp add: ms mask_contract_def broadcastable_to_def unsqueeze_last_def)
  define cell where
    "cell = (\<lambda>idx. if elt (unsqueeze_last m) (bindex (shape (unsqueeze_last m)) idx) = 0
                    then NegInf else Fin (elt s idx * mha_scale self))"
  define a where "a = \<lparr> shape = [lq, lk, b, h],
     elt = (\<lambda>idx. softmax_row (map (\<lambda>j. cell (idx[1 := j])) [0..<lk]) ! (idx ! 1)) \<rparr>"
  have aw: "attn_weights self q k (Some m) = Inr a"
    using bc
    by (simp add: attn_weights_def s Let_def pm masked_fill_neg_inf_def tscale_def
        Softmax_forward_def ss ax a_def cell_def cong: if_cong)
  have cell_eq: "cell [i, j, bb, hh]
                   = (if mask_entry m i j bb = 0 then NegInf
                      else Fin (elt s [i, j, bb, hh] * mha_scale self))"
    if "j < lk" for i j bb hh
    using that m1
    by (auto simp add: cell_def unsqueeze_last_def bindex_def ms mask_entry_def)
  define row where
    "row = (\<lambda>i bb hh. map (\<lambda>j. if mask_entry m i j bb = 0 then NegInf
                                 else Fin (elt s [i, j, bb, hh] * mha_scale self)) [0..<lk])"
  have rows: "map (\<lambda>j. cell [i, j, bb, hh]) [0..<lk] = row i bb hh" for i bb hh
    by (simp add: row_def cell_eq)
  have "attn_row a lk i bb hh = softmax_row (row i bb hh)" for i bb hh
  proof -
    have "attn_row a lk i bb hh = map (\<lambda>j. softmax_row (row i bb hh) ! j) [0..<lk]"
      by (simp add: attn_row_def a_def rows)
    also have "\<dots> = map (\<lambda>j. softmax_row (row i bb hh) ! j)
                       [0..<length (softmax_row (row i bb hh))]"
      by (simp add: row_def)
    also have "\<dots> = softmax_row (row i bb hh)"
      by (rule map_nth)
    finally show ?thesis .
  qed
  then show ?thesis using s aw by (auto simp add: a_def row_def)
qed

text \<open>
  C3, as claimed: when a mask is supplied, every position where the mask is 0 receives
  the attention weight exactly 0. Refuted on a row whose only key is masked (query and
  key of one position, mask [[[0]]]): the weight at that position is NaN, the softmax of
  a row that is minus infinity everywhere.
\<close>

theorem C3_counterexample:
  "map_sum id (\<lambda>a. (mask_entry (const_mask [1, 1, 1] 0) 0 0 0, elt a [0, 0, 0, 0]))
     (attn_weights unit_attention (zeros [1, 1, 1, 1]) (zeros [1, 1, 1, 1])
        (Some (const_mask [1, 1, 1] 0)))
   = Inr (0, NaN)"
  by (simp add: attn_weights_def get_scores_def einsum_ibhd_jbhd_def zeros_def Let_def
      prepare_mask_def shape_at_def const_mask_def unsqueeze_last_def masked_fill_neg_inf_def
      broadcastable_to_def tscale_def Softmax_forward_def unit_attention_def softmax_row_def
      bindex_def mask_entry_def)

text \<open>
  C3, amended: in a module built by the constructor, the softmax of the scores
  [query_len, key_len, batch, heads] is taken along the key axis. Without a mask and
  with at least one key, the weights of every query, batch element and head sum to 1.
  With a mask that meets the shape contract, every score whose mask entry is 0 is minus
  infinity before the softmax; in every row that keeps at least one key with a non-zero
  mask entry the weights sum to 1 and each masked position has the weight exactly 0; a
  row all of whose keys are masked has the weight NaN at each position.
\<close>

theorem C3_softmax_over_keys:
  assumes init: "MultiHeadAttention_init ps heads d_model p bias_arg = Inr self"
      and q: "shape q = [lq, b, h, d]" and k: "shape k = [lk, b, h, d]"
  shows "(\<exists>a. attn_weights self q k None = Inr a \<and> shape a = [lq, lk, b, h]
            \<and> (0 < lk \<longrightarrow> (\<forall>i<lq. \<forall>bb<b. \<forall>hh<h. wsum (attn_row a lk i bb hh) = Wt 1)))
       \<and> (length (shape m) = 3 \<and> mask_contract (shape m) lq lk b \<longrightarrow>
            (\<exists>a. attn_weights self q k (Some m) = Inr a \<and> shape a = [lq, lk, b, h]
               \<and> (\<forall>i<lq. \<forall>bb<b. \<forall>hh<h.
                     ((\<exists>j<lk. mask_entry m i j bb \<noteq> 0) \<longrightarrow>
                        wsum (attn_row a lk i bb hh) = Wt 1
                        \<and> (\<forall>j<lk. mask_entry m i j bb = 0 \<longrightarrow> elt a [i, j, bb, hh] = Wt 0))
                   \<and> ((\<forall>j<lk. mask_entry m i j bb = 0) \<longrightarrow>
                        (\<forall>j<lk. elt a [i, j, bb, hh] = NaN)))))"
proof -
  have ax: "mha_softmax_dim self = 1"
    using init by (rule init_softmax_dim)
  have elt_row: "elt a [i, j, bb, hh] = attn_row a lk i bb hh ! j" if "j < lk"
    for a :: "aweight tensor" and i j bb hh
    using that by (simp add: attn_row_def)
  have part1: "\<exists>a. attn_weights self q k None = Inr a \<and> shape a = [lq, lk, b, h]
            \<and> (0 < lk \<longrightarrow> (\<forall>i<lq. \<forall>bb<b. \<forall>hh<h. wsum (attn_row a lk i bb hh) = Wt 1))"
  proof -
    obtain s :: "real tensor" and a
      where aw: "attn_weights self q k None = Inr a" and sa: "shape a = [lq, lk, b, h]"
      and rows: "\<forall>i bb hh. attn_row a lk i bb hh
                 = softmax_row (map (\<lambda>j. Fin (elt s [i, j, bb, hh] * mha_scale self)) [0..<lk])"
      using attn_weights_unmasked [OF q k ax] by blast
    have "wsum (attn_row a lk i bb hh) = Wt 1" if "0 < lk" for i bb hh
    proof -
      have "\<not> list_all (\<lambda>x. x = NegInf)
                (map (\<lambda>j. Fin (elt s [i, j, bb, hh] * mha_scale self)) [0..<lk])"
        using that by (auto simp add: list_all_length)
      then show ?thesis
        using rows by (simp add: softmax_row_sums_to_one)
    qed
    then show ?thesis using aw sa by blast
  qed
  have part2: "\<exists>a. attn_weights self q k (Some m) = Inr a \<and> shape a = [lq, lk, b, h]
               \<and> (\<forall>i<lq. \<forall>bb<b. \<forall>hh<h.
                     ((\<exists>j<lk. mask_entry m i j bb \<noteq> 0) \<longrightarrow>
                        wsum (attn_row a lk i bb hh) = Wt 1
                        \<and> (\<forall>j<lk. mask_entry m i j bb = 0 \<longrightarrow> elt a [i, j, bb, hh] = Wt 0))
                   \<and> ((\<forall>j<lk. mask_entry m i j bb = 0) \<longrightarrow>
                        (\<forall>j<lk. elt a [i, j, bb, hh] = NaN)))"
    if rank: "length (shape m) = 3" and ok: "mask_contract (shape m) lq lk b"
  proof -
    obtain s :: "real tensor" and a
      where aw: "attn_weights self q k (Some m) = Inr a"
      and sa: "shape a = [lq, lk, b, h]"
      and rows: "\<forall>i bb hh. attn_row a lk i bb hh
                 = softmax_row (map (\<lambda>j. if mask_entry m i j bb = 0 then NegInf
                                          else Fin (elt s [i, j, bb, hh] * mha_scale self))
                                 [0..<lk])"
      using attn_weights_masked [OF q k ax rank ok] by blast
    define row where
      "row = (\<lambda>i bb hh. map (\<lambda>j. if mask_entry m i j bb = 0 then NegInf
                                   else Fin (elt s [i, j, bb, hh] * mha_scale self)) [0..<lk])"
    have rows': "attn_row a lk i bb hh = softmax_row (row i bb hh)" for i bb hh
      using rows by (simp add: row_def)
    have len: "length (row i bb hh) = lk" for i bb hh
      by (simp add: row_def)
    have some: "wsum (attn_row a lk i bb hh) = Wt 1
                \<and> (\<forall>j<lk. mask_entry m i j bb = 0 \<longrightarrow> elt a [i, j, bb, hh] = Wt 0)"
      if ex: "\<exists>j<lk. mask_entry m i j bb \<noteq> 0" for i bb hh
    proof -
      have nall: "\<not> list_all (\<lambda>x. x = NegInf) (row i bb hh)"
      proof -
        obtain j where j: "j < lk" and nz: "mask_entry m i j bb \<noteq> 0"
          using ex by blast
        have "row i bb hh ! j \<noteq> NegInf" using j nz by (simp add: row_def)
        then show ?thesis using j len by (auto simp add: list_all_length)
      qed
      have "elt a [i, j, bb, hh] = Wt 0" if j: "j < lk" and z: "mask_entry m i j bb = 0" for j
      proof -
        have "row i bb hh ! j = NegInf" using j z by (simp add: row_def)
        then have "softmax_row (row i bb hh) ! j = Wt 0"
          using softmax_row_masked_zero [OF nall] j len by simp
        then show ?thesis using elt_row [OF j] rows' by simp
      qed
      then show ?thesis
        using softmax_row_sums_to_one [OF nall] rows' by simp
    qed
    have none: "\<forall>j<lk. elt a [i, j, bb, hh] = NaN"
      if all: "\<forall>j<lk. mask_entry m i j bb = 0" for i bb hh
    proof (intro allI impI)
      fix j assume j: "j < lk"
      have "list_all (\<lambda>x. x = NegInf) (row i bb hh)"
        using all by (simp add: row_def list_all_length)
      then have "softmax_row (row i bb hh) ! j = NaN"
        using softmax_row_all_masked j len by simp
      then show "elt a [i, j, bb, hh] = NaN" using elt_row [OF j] rows' by simp
    qed
    show ?thesis using aw sa some none by blast
  qed
  show ?thesis using part1 part2 by blast
qed

theorem C3_softmax_over_keys_witness:
  "(\<exists>a. attn_weights unit_attention (zeros [1, 1, 1, 1]) (zeros [2, 1, 1, 1]) None = Inr a
       \<and> wsum (attn_row a 2 0 0 0) = Wt 1)
   \<and> (\<exists>a. attn_weights unit_attention (zeros [1, 1, 1, 1]) (zeros [2, 1, 1, 1])
             (Some first_key_only) = Inr a
       \<and> wsum (attn_row a 2 0 0 0) = Wt 1 \<and> elt a [0, 1, 0, 0] = Wt 0)
   \<and> (\<exists>a. attn_weights unit_attention (zeros [1, 1, 1, 1]) (zeros [2, 1, 1, 1])
             (Some (const_mask [1, 2, 1] 0)) = Inr a
       \<and> elt a [0, 0, 0, 0] = NaN \<and> elt a [0, 1, 0, 0] = NaN)"
proof -
  have q: "shape (zeros [1, 1, 1, 1]) = [1, 1, 1, 1]"
    and k: "shape (zeros [2, 1, 1, 1]) = [2, 1, 1, 1]"
    by (simp_all add: zeros_def)
  have c1: "length (shape first_key_only) = 3 \<and> mask_contract (shape first_key_only) 1 2 1"
    by (simp add: first_key_only_def mask_contract_def)
  have c2: "length (shape (const_mask [1, 2, 1] 0)) = 3
            \<and> mask_contract (shape (const_mask [1, 2, 1] 0)) 1 2 1"
    by (simp add: const_mask_def mask_contract_def)
  note t1 = C3_softmax_over_keys [OF unit_attention_init q k, where m = first_key_only]
  note t2 = C3_softmax_over_keys [OF unit_attention_init q k, where m = "const_mask [1, 2, 1] 0"]
  note plain = t1 [THEN conjunct1]
  note masked1 = t1 [THEN conjunct2, THEN mp, OF c1]
  note masked2 = t2 [THEN conjunct2, THEN mp, OF c2]
  have e0: "\<exists>j<2. mask_entry first_key_only 0 j 0 \<noteq> 0"
    by (rule exI [of _ 0]) (simp add: first_key_only_def mask_entry_def)
  have e1: "mask_entry first_key_only 0 1 0 = 0"
    by (simp add: first_key_only_def mask_entry_def)
  have z: "\<forall>j<2. mask_entry (const_mask [1, 2, 1] 0) 0 j 0 = 0"
    by (simp add: const_mask_def mask_entry_def)
  have p1: "\<exists>a. attn_weights unit_attention (zeros [1, 1, 1, 1]) (zeros [2, 1, 1, 1]) None = Inr a
       \<and> wsum (attn_row a 2 0 0 0) = Wt 1"
  proof -
    from plain obtain a where
        a: "attn_weights unit_attention (zeros [1, 1, 1, 1]) (zeros [2, 1, 1, 1]) None = Inr a"
      and r: "0 < (2::nat) \<longrightarrow> (\<forall>i<1. \<forall>bb<1. \<forall>hh<1. wsum (attn_row a 2 i bb hh) = Wt 1)"
      by (elim exE conjE) (rule that, assumption+)
    from r have "wsum (attn_row a 2 0 0 0) = Wt 1" by simp
    with a show ?thesis by (intro exI conjI)
  qed
  have p2: "\<exists>a. attn_weights unit_attention (zeros [1, 1, 1, 1]) (zeros [2, 1, 1, 1])
             (Some first_key_only) = Inr a
       \<and> wsum (attn_row a 2 0 0 0) = Wt 1 \<and> elt a [0, 1, 0, 0] = Wt 0"
  proof -
    from masked1 obtain a where
        a: "attn_weights unit_attention (zeros [1, 1, 1, 1]) (zeros [2, 1, 1, 1])
              (Some first_key_only) = Inr a"
      and r: "\<forall>i<1. \<forall>bb<1. \<forall>hh<1.
                ((\<exists>j<2. mask_entry first_key_only i j bb \<noteq> 0) \<longrightarrow>
                   wsum (attn_row a 2 i bb hh) = Wt 1
                   \<and> (\<forall>j<2. mask_entry first_key_only i j bb = 0 \<longrightarrow> elt a [i, j, bb, hh] = Wt 0))
                \<and> ((\<forall>j<2. mask_entry first_key_only i j bb = 0) \<longrightarrow>
                     (\<forall>j<2. elt a [i, j, bb, hh] = NaN))"
      by (elim exE conjE) (rule that, assumption+)
    from r have "(\<exists>j<2. mask_entry first_key_only 0 j 0 \<noteq> 0) \<longrightarrow>
                   wsum (attn_row a 2 0 0 0) = Wt 1
                   \<and> (\<forall>j<2. mask_entry first_key_only 0 j 0 = 0 \<longrightarrow> elt a [0, j, 0, 0] = Wt 0)"
      by simp
    with e0 have s1: "wsum (attn_row a 2 0 0 0) = Wt 1"
      and s2: "\<forall>j<2. mask_entry first_key_only 0 j 0 = 0 \<longrightarrow> elt a [0, j, 0, 0] = Wt 0"
      by simp_all
    from s2 e1 have "elt a [0, 1, 0, 0] = Wt 0" by simp
    with a s1 show ?thesis by (intro exI conjI)
  qed
  have p3: "\<exists>a. attn_weights unit_attention (zeros [1, 1, 1, 1]) (zeros [2, 1, 1, 1])
             (Some (const_mask [1, 2, 1] 0)) = Inr a
       \<and> elt a [0, 0, 0, 0] = NaN \<and> elt a [0, 1, 0, 0] = NaN"
  proof -
    from masked2 obtain a where
        a: "attn_weights unit_attention (zeros [1, 1, 1, 1]) (zeros [2, 1, 1, 1])
              (Some (const_mask [1, 2, 1] 0)) = Inr a"
      and r: "\<forall>i<1. \<forall>bb<1. \<forall>hh<1.
                ((\<exists>j<2. mask_entry (const_mask [1, 2, 1] 0) i j bb \<noteq> 0) \<longrightarrow>
                   wsum (attn_row a 2 i bb hh) = Wt 1
                   \<and> (\<forall>j<2. mask_entry (const_mask [1, 2, 1] 0) i j bb = 0
                          \<longrightarrow> elt a [i, j, bb, hh] = Wt 0))
                \<and> ((\<forall>j<2. mask_entry (const_mask [1, 2, 1] 0) i j bb = 0) \<longrightarrow>
                     (\<forall>j<2. elt a [i, j, bb, hh] = NaN))"
      by (elim exE conjE) (rule that, assumption+)
    from r have "(\<forall>j<2. mask_entry (const_mask [1, 2, 1] 0) 0 j 0 = 0) \<longrightarrow>
                     (\<forall>j<2. elt a [0, j, 0, 0] = NaN)"
      by simp
    with z have n: "\<forall>j<2. elt a [0, j, 0, 0] = NaN" by (rule rev_mp)
    from n have "elt a [0, 0, 0, 0] = NaN" and "elt a [0, 1, 0, 0] = NaN" by simp_all
    with a show ?thesis by (intro exI conjI)
  qed
  show ?thesis using p1 p2 p3 by (intro conjI)
qed

subsection \<open>The transformer layer\<close>

text \<open>
  One residual stage: normalise, run the sub-layer on the normalised value, apply
  dropout to what it returns, and add that to the value as it was before normalisation.
\<close>

lemma residual_stage:
  assumes x: "shape x = sh" "sh \<noteq> []" "last sh = normalized_shape nrm"
      and sub: "\<forall>z. shape z = sh \<longrightarrow> (\<exists>a. sub z = Inr (PyTensor a) \<and> shape a = sh)"
  shows "\<exists>z a x'. LayerNorm_forward nrm x = Inr z \<and> sub z = Inr (PyTensor a)
           \<and> tadd x (Dropout_forward d keep a) = Inr x' \<and> shape x' = sh
           \<and> (\<forall>idx. valid_index sh idx \<longrightarrow>
                 elt x' idx = elt x idx + elt (Dropout_forward d keep a) idx)"
proof -
  obtain z where z: "LayerNorm_forward nrm x = Inr z" and sz: "shape z = sh"
    using LayerNorm_forward_ok [of x nrm] x by auto
  obtain a where a: "sub z = Inr (PyTensor a)" and sa: "shape a = sh"
    using sub sz by blast
  have "shape x = shape (Dropout_forward d keep a)" using x sa by simp
  from tadd_same_shape [OF this] obtain x' where
    "tadd x (Dropout_forward d keep a) = Inr x'" "shape x' = shape x"
    "\<forall>idx. valid_index (shape x) idx \<longrightarrow> elt x' idx = elt x idx + elt (Dropout_forward d keep a) idx"
    by blast
  then show ?thesis using z a x by auto
qed

text \<open>
  A layer whose self-attention is the attention module of mha.py raises on every input:
  that module never returns a tensor, and dropout applied to \<open>None\<close> is a TypeError.
\<close>

lemma layer_on_MultiHeadAttention_raises:
  assumes "self_attn self = MultiHeadAttention_forward m keep"
  shows "\<exists>e. TransformerLayer_forward self noise x msk src src_mask = Inl e"
proof (cases "LayerNorm_forward (norm_self_attn self) x")
  case (Inl e)
  then show ?thesis by (simp add: TransformerLayer_forward_def)
next
  case z: (Inr z)
  show ?thesis
  proof (cases "MultiHeadAttention_forward m keep z z z msk")
    case (Inl e)
    then show ?thesis by (simp add: TransformerLayer_forward_def z assms)
  next
    case (Inr v)
    then have "v = PyNone"
      using MultiHeadAttention_forward_never_tensor [of m keep z z z msk] by (cases v) auto
    then show ?thesis using Inr by (simp add: TransformerLayer_forward_def z assms)
  qed
qed

text \<open>
  What the body of the layer does when its sub-layers do return a tensor of the shape
  of x: the self-attention is fed the normalised x and its dropout-applied output is
  added to x itself; the feed-forward is fed the normalised running value and its
  dropout-applied output is added to the running value itself. With no memory tensor
  the cross-attention stage is skipped: the running value after the self-attention
  stage goes to the feed-forward stage as it is. With a memory tensor (and a layer
  built with a source attention) the cross-attention stage sits in between, with the
  same pattern: normalised query, memory as key and value, residual onto the
  un-normalised running value.
\<close>

lemma layer_forward_given_tensor_sublayers:
  assumes x: "shape x = [n, b, d]"
      and n1: "normalized_shape (norm_self_attn self) = d"
      and n3: "normalized_shape (norm_ff self) = d"
      and sa: "\<forall>q. shape q = [n, b, d] \<longrightarrow>
                 (\<exists>a. self_attn self q q q msk = Inr (PyTensor a) \<and> shape a = [n, b, d])"
      and ff: "\<forall>z. shape z = [n, b, d] \<longrightarrow>
                 (\<exists>f. feed_forward self z = Inr (PyTensor f) \<and> shape f = [n, b, d])"
  shows "(\<exists>z1 a x1 z3 f y.
            LayerNorm_forward (norm_self_attn self) x = Inr z1
          \<and> self_attn self z1 z1 z1 msk = Inr (PyTensor a)
          \<and> tadd x (Dropout_forward (tl_dropout self) (keep_self noise) a) = Inr x1
          \<and> LayerNorm_forward (norm_ff self) x1 = Inr z3
          \<and> feed_forward self z3 = Inr (PyTensor f)
          \<and> tadd x1 (Dropout_forward (tl_dropout self) (keep_ff noise) f) = Inr y
          \<and> TransformerLayer_forward self noise x msk None src_mask = Inr y
          \<and> shape y = [n, b, d]
          \<and> (\<forall>idx. valid_index [n, b, d] idx \<longrightarrow>
                elt y idx = elt x idx
                  + elt (Dropout_forward (tl_dropout self) (keep_self noise) a) idx
                  + elt (Dropout_forward (tl_dropout self) (keep_ff noise) f) idx))
       \<and> (\<forall>nrm2 ca. norm_src_attn self = Some nrm2 \<and> normalized_shape nrm2 = d
            \<and> src_attn self = Some ca
            \<and> (\<forall>q. shape q = [n, b, d] \<longrightarrow>
                  (\<exists>c. ca q memory memory src_mask = Inr (PyTensor c) \<and> shape c = [n, b, d]))
            \<longrightarrow>
            (\<exists>z1 a x1 z2 c x2 z3 f y.
               LayerNorm_forward (norm_self_attn self) x = Inr z1
             \<and> self_attn self z1 z1 z1 msk = Inr (PyTensor a)
             \<and> tadd x (Dropout_forward (tl_dropout self) (keep_self noise) a) = Inr x1
             \<and> LayerNorm_forward nrm2 x1 = Inr z2
             \<and> ca z2 memory memory src_mask = Inr (PyTensor c)
             \<and> tadd x1 (Dropout_forward (tl_dropout self) (keep_src noise) c) = Inr x2
             \<and> LayerNorm_forward (norm_ff self) x2 = Inr z3
             \<and> feed_forward self z3 = Inr (PyTensor f)
             \<and> tadd x2 (Dropout_forward (tl_dropout self) (keep_ff noise) f) = Inr y
             \<and> TransformerLayer_forward self noise x msk (Some memory) src_mask = Inr y
             \<and> shape y = [n, b, d]))"
proof -
  obtain z1 a x1 where
      z1: "LayerNorm_forward (norm_self_attn self) x = Inr z1"
    and a: "self_attn self z1 z1 z1 msk = Inr (PyTensor a)"
    and x1: "tadd x (Dropout_forward (tl_dropout self) (keep_self noise) a) = Inr x1"
    and sx1: "shape x1 = [n, b, d]"
    and ex1: "\<forall>idx. valid_index [n, b, d] idx \<longrightarrow>
                 elt x1 idx = elt x idx + elt (Dropout_forward (tl_dropout self) (keep_self noise) a) idx"
    using residual_stage [of x "[n, b, d]" "norm_self_attn self" "\<lambda>z. self_attn self z z z msk"
        "tl_dropout self" "keep_self noise"] x n1 sa
    by auto
  have encoder_role: "\<exists>z3 f y.
            LayerNorm_forward (norm_ff self) x1 = Inr z3
          \<and> feed_forward self z3 = Inr (PyTensor f)
          \<and> tadd x1 (Dropout_forward (tl_dropout self) (keep_ff noise) f) = Inr y
          \<and> TransformerLayer_forward self noise x msk None src_mask = Inr y
          \<and> shape y = [n, b, d]
          \<and> (\<forall>idx. valid_index [n, b, d] idx \<longrightarrow>
                elt y idx = elt x idx
                  + elt (Dropout_forward (tl_dropout self) (keep_self noise) a) idx
                  + elt (Dropout_forward (tl_dropout self) (keep_ff noise) f) idx)"
  proof -
    obtain z3 f y where
        z3: "LayerNorm_forward (norm_ff self) x1 = Inr z3"
      and f: "feed_forward self z3 = Inr (PyTensor f)"
      and y: "tadd x1 (Dropout_forward (tl_dropout self) (keep_ff noise) f) = Inr y"
      and sy: "shape y = [n, b, d]"
      and ey: "\<forall>idx. valid_index [n, b, d] idx \<longrightarrow>
                 elt y idx = elt x1 idx + elt (Dropout_forward (tl_dropout self) (keep_ff noise) f) idx"
      using residual_stage [of x1 "[n, b, d]" "norm_ff self" "feed_forward self"
          "tl_dropout self" "keep_ff noise"] sx1 n3 ff
      by auto
    have fwd: "TransformerLayer_forward self noise x msk None src_mask = Inr y"
      by (simp add: TransformerLayer_forward_def z1 a x1 z3 f y)
    show ?thesis using z3 f y fwd sy ey ex1 by auto
  qed
  have decoder_role: "\<exists>z2 c x2 z3 f y.
               LayerNorm_forward nrm2 x1 = Inr z2
             \<and> ca z2 memory memory src_mask = Inr (PyTensor c)
             \<and> tadd x1 (Dropout_forward (tl_dropout self) (keep_src noise) c) = Inr x2
             \<and> LayerNorm_forward (norm_ff self) x2 = Inr z3
             \<and> feed_forward self z3 = Inr (PyTensor f)
             \<and> tadd x2 (Dropout_forward (tl_dropout self) (keep_ff noise) f) = Inr y
             \<and> TransformerLayer_forward self noise x msk (Some memory) src_mask = Inr y
             \<and> shape y = [n, b, d]"
    if n2: "norm_src_attn self = Some nrm2" and n2d: "normalized_shape nrm2 = d"
      and ca: "src_attn self = Some ca"
      and cah: "\<forall>q. shape q = [n, b, d] \<longrightarrow>
                  (\<exists>c. ca q memory memory src_mask = Inr (PyTensor c) \<and> shape c = [n, b, d])"
    for nrm2 ca
  proof -
    obtain z2 c x2 where
        z2: "LayerNorm_forward nrm2 x1 = Inr z2"
      and c: "ca z2 memory memory src_mask = Inr (PyTensor c)"
      and x2: "tadd x1 (Dropout_forward (tl_dropout self) (keep_src noise) c) = Inr x2"
      and sx2: "shape x2 = [n, b, d]"
      using residual_stage [of x1 "[n, b, d]" nrm2 "\<lambda>z. ca z memory memory src_mask"
          "tl_dropout self" "keep_src noise"] sx1 n2d cah
      by auto
    obtain z3 f y where
        z3: "LayerNorm_forward (norm_ff self) x2 = Inr z3"
      and f: "feed_forward self z3 = Inr (PyTensor f)"
      and y: "tadd x2 (Dropout_forward (tl_dropout self) (keep_ff noise) f) = Inr y"
      and sy: "shape y = [n, b, d]"
      using residual_stage [of x2 "[n, b, d]" "norm_ff self" "feed_forward self"
          "tl_dropout self" "keep_ff noise"] sx2 n3 ff
      by auto
    have fwd: "TransformerLayer_forward self noise x msk (Some memory) src_mask = Inr y"
      by (simp add: TransformerLayer_forward_def z1 a x1 n2 ca z2 c x2 z3 f y)
    show ?thesis using z2 c x2 z3 f y fwd sy by blast
  qed
  show ?thesis
  proof (intro conjI allI impI)
    show "\<exists>z1 a x1 z3 f y.
            LayerNorm_forward (norm_self_attn self) x = Inr z1
          \<and> self_attn self z1 z1 z1 msk = Inr (PyTensor a)
          \<and> tadd x (Dropout_forward (tl_dropout self) (keep_self noise) a) = Inr x1
          \<and> LayerNorm_forward (norm_ff self) x1 = Inr z3
          \<and> feed_forward self z3 = Inr (PyTensor f)
          \<and> tadd x1 (Dropout_forward (tl_dropout self) (keep_ff noise) f) = Inr y
          \<and> TransformerLayer_forward self noise x msk None src_mask = Inr y
          \<and> shape y = [n, b, d]
          \<and> (\<forall>idx. valid_index [n, b, d] idx \<longrightarrow>
                elt y idx = elt x idx
                  + elt (Dropout_forward (tl_dropout self) (keep_self noise) a) idx
                  + elt (Dropout_forward (tl_dropout self) (keep_ff noise) f) idx)"
      using z1 a x1 encoder_role by blast
  next
    fix nrm2 ca
    assume h: "norm_src_attn self = Some nrm2 \<and> normalized_shape nrm2 = d
            \<and> src_attn self = Some ca
            \<and> (\<forall>q. shape q = [n, b, d] \<longrightarrow>
                  (\<exists>c. ca q memory memory src_mask = Inr (PyTensor c) \<and> shape c = [n, b, d]))"
    have "\<exists>z2 c x2 z3 f y.
               LayerNorm_forward nrm2 x1 = Inr z2
             \<and> ca z2 memory memory src_mask = Inr (PyTensor c)
             \<and> tadd x1 (Dropout_forward (tl_dropout self) (keep_src noise) c) = Inr x2
             \<and> LayerNorm_forward (norm_ff self) x2 = Inr z3
             \<and> feed_forward self z3 = Inr (PyTensor f)
             \<and> tadd x2 (Dropout_forward (tl_dropout self) (keep_ff noise) f) = Inr y
             \<and> TransformerLayer_forward self noise x msk (Some memory) src_mask = Inr y
             \<and> shape y = [n, b, d]"
      using h by (intro decoder_role) simp_all
    then show "\<exists>z1 a x1 z2 c x2 z3 f y.
               LayerNorm_forward (norm_self_attn self) x = Inr z1
             \<and> self_attn self z1 z1 z1 msk = Inr (PyTensor a)
             \<and> tadd x (Dropout_forward (tl_dropout self) (keep_self noise) a) = Inr x1
             \<and> LayerNorm_forward nrm2 x1 = Inr z2
             \<and> ca z2 memory memory src_mask = Inr (PyTensor c)
             \<and> tadd x1 (Dropout_forward (tl_dropout self) (keep_src noise) c) = Inr x2
             \<and> LayerNorm_forward (norm_ff self) x2 = Inr z3
             \<and> feed_forward self z3 = Inr (PyTensor f)
             \<and> tadd x2 (Dropout_forward (tl_dropout self) (keep_ff noise) f) = Inr y
             \<and> TransformerLayer_forward self noise x msk (Some memory) src_mask = Inr y
             \<and> shape y = [n, b, d]"
      using z1 a x1 by blast
  qed
qed

lemma echo_layer_init:
  "TransformerLayer_init 1 echo_attention (Some echo_attention) echo_feed_forward 0
     = Inr echo_layer"
  by (simp add: TransformerLayer_init_def nn_Dropout_def echo_layer_def)

lemma layer_forward_echo_instance:
  "(\<exists>y. TransformerLayer_forward echo_layer no_noise (zeros [2, 1, 1]) None None None = Inr y
       \<and> shape y = [2, 1, 1])
   \<and> (\<exists>y. TransformerLayer_forward echo_layer no_noise (zeros [2, 1, 1]) None
             (Some (zeros [3, 1, 1])) None = Inr y
       \<and> shape y = [2, 1, 1])"
proof -
  have x: "shape (zeros [2, 1, 1]) = [2, 1, 1]"
    by (simp add: zeros_def)
  have n1: "normalized_shape (norm_self_attn echo_layer) = 1"
    and n3: "normalized_shape (norm_ff echo_layer) = 1"
    by (simp_all add: echo_layer_def nn_LayerNorm_def)
  have sa: "\<forall>q. shape q = [2, 1, 1] \<longrightarrow>
              (\<exists>a. self_attn echo_layer q q q None = Inr (PyTensor a) \<and> shape a = [2, 1, 1])"
    by (simp add: echo_layer_def echo_attention_def)
  have ff: "\<forall>z. shape z = [2, 1, 1] \<longrightarrow>
              (\<exists>f. feed_forward echo_layer z = Inr (PyTensor f) \<and> shape f = [2, 1, 1])"
    by (simp add: echo_layer_def echo_feed_forward_def)
  note t = layer_forward_given_tensor_sublayers [OF x n1 n3 sa ff, where noise = no_noise and src_mask = None
      and memory = "zeros [3, 1, 1]"]
  have h: "norm_src_attn echo_layer = Some (nn_LayerNorm 1)
           \<and> normalized_shape (nn_LayerNorm 1) = 1
           \<and> src_attn echo_layer = Some echo_attention
           \<and> (\<forall>q. shape q = [2, 1, 1] \<longrightarrow>
                 (\<exists>c. echo_attention q (zeros [3, 1, 1]) (zeros [3, 1, 1]) None = Inr (PyTensor c)
                      \<and> shape c = [2, 1, 1]))"
    by (simp add: echo_layer_def echo_attention_def nn_LayerNorm_def)
  have p1: "\<exists>y. TransformerLayer_forward echo_layer no_noise (zeros [2, 1, 1]) None None None = Inr y
       \<and> shape y = [2, 1, 1]"
    using t [THEN conjunct1] by (elim exE conjE) (intro exI conjI, assumption+)
  have p2: "\<exists>y. TransformerLayer_forward echo_layer no_noise (zeros [2, 1, 1]) None
             (Some (zeros [3, 1, 1])) None = Inr y
       \<and> shape y = [2, 1, 1]"
    using t [THEN conjunct2, THEN spec, THEN spec, THEN mp, OF h]
    by (elim exE conjE) (intro exI conjI, assumption+)
  show ?thesis using p1 p2 by (intro conjI)
qed

lemma two_head_attention_init:
  "MultiHeadAttention_init ones_mha 2 2 0 True = Inr two_head_attention"
  by (simp add: MultiHeadAttention_init_def nn_Dropout_def Let_def ones_mha_def
      two_head_attention_def)

lemma encoder_layer_init:
  "TransformerLayer_init 2 (MultiHeadAttention_forward two_head_attention keep_all) None
     (FeedForward_call ffn_2_4 keep_all) 0 = Inr encoder_layer"
  by (simp add: TransformerLayer_init_def nn_Dropout_def encoder_layer_def)

text \<open>
  On query, key and value of the shapes [len, batch, model_dim] and without a mask, an
  attention module built by the constructor raises nothing and returns None.
\<close>

lemma MultiHeadAttention_forward_None:
  assumes init: "MultiHeadAttention_init ps heads d_model p bias_arg = Inr m"
      and q: "shape query = [lq, b, d_model]" and k: "shape key = [lk, b, d_model]"
      and v: "shape val = [lk, b, d_model]"
  shows "MultiHeadAttention_forward m keep query key val None = Inr PyNone"
proof -
  define dk where "dk = d_model div heads"
  have m: "mha_query m = PrepareForMultiHeadAttention_init (query_params ps) d_model heads dk bias_arg"
    "mha_key m = PrepareForMultiHeadAttention_init (key_params ps) d_model heads dk bias_arg"
    "mha_value m = PrepareForMultiHeadAttention_init (value_params ps) d_model heads dk True"
    "mha_softmax_dim m = 1"
    using init
    by (auto simp add: MultiHeadAttention_init_def nn_Dropout_def bind_err_def Let_def dk_def
        split: if_splits)
  have prep: "\<exists>y. PrepareForMultiHeadAttention_forward
                  (PrepareForMultiHeadAttention_init lp d_model heads dk bb) x = Inr y
                \<and> shape y = [n, b, heads, dk]"
    if "shape x = [n, b, d_model]" for lp bb x n
    using that
    by (simp add: PrepareForMultiHeadAttention_forward_def PrepareForMultiHeadAttention_init_def
        nn_Linear_def Linear_forward_def view_heads_def Let_def)
  obtain q' where q': "PrepareForMultiHeadAttention_forward (mha_query m) query = Inr q'"
    and sq: "shape q' = [lq, b, heads, dk]"
    using prep [OF q] m by auto
  obtain k' where k': "PrepareForMultiHeadAttention_forward (mha_key m) key = Inr k'"
    and sk: "shape k' = [lk, b, heads, dk]"
    using prep [OF k] m by auto
  obtain v' where v': "PrepareForMultiHeadAttention_forward (mha_value m) val = Inr v'"
    and sv: "shape v' = [lk, b, heads, dk]"
    using prep [OF v] m by auto
  obtain s :: "real tensor" and a where aw: "attn_weights m q' k' None = Inr a"
    and sa: "shape a = [lq, lk, b, heads]"
    using attn_weights_unmasked [OF sq sk m(4)] by blast
  have sd: "shape (Dropout_forward_w (mha_dropout m) keep a) = [lq, lk, b, heads]"
    using sa by (simp add: Dropout_forward_w_def)
  have "\<exists>x. einsum_ijbh_jbhd (Dropout_forward_w (mha_dropout m) keep a) v' = Inr x"
    using sd sv by (simp add: einsum_ijbh_jbhd_def)
  then show ?thesis
    using q' k' v' aw by (auto simp add: MultiHeadAttention_forward_def q Let_def)
qed

text \<open>
  C4. The layer is claimed, for every input x of shape [len, batch, model_dim], to add
  each sub-layer's dropout-applied output to the running value. On the code it does
  not: the encoder layer built by the constructor around the attention module of mha.py
  (heads 2, model_dim 2) and the feed-forward module of FFN.py, called on an input of
  shape [3, 1, 2] with no memory, raises TypeError. The attention module returns None
  (its forward has no return statement), and the layer applies dropout to that None;
  no residual is added and no value is returned.
\<close>

theorem C4_layer_raises:
  "MultiHeadAttention_init ones_mha 2 2 0 True = Inr two_head_attention
   \<and> TransformerLayer_init 2 (MultiHeadAttention_forward two_head_attention keep_all) None
       (FeedForward_call ffn_2_4 keep_all) 0 = Inr encoder_layer
   \<and> TransformerLayer_forward encoder_layer no_noise (ramp [3, 1, 2]) None None None
       = Inl TypeError"
proof -
  obtain z where z: "LayerNorm_forward (nn_LayerNorm 2) (ramp [3, 1, 2]) = Inr z"
    and sz: "shape z = [3, 1, 2]"
    using LayerNorm_forward_ok [of "ramp [3, 1, 2]" "nn_LayerNorm 2"]
    by (auto simp add: ramp_def nn_LayerNorm_def)
  have "MultiHeadAttention_forward two_head_attention keep_all z z z None = Inr PyNone"
    using MultiHeadAttention_forward_None [OF two_head_attention_init sz sz sz] .
  then have "TransformerLayer_forward encoder_layer no_noise (ramp [3, 1, 2]) None None None
               = Inl TypeError"
    using z by (simp add: TransformerLayer_forward_def encoder_layer_def)
  then show ?thesis
    using two_head_attention_init encoder_layer_init by simp
qed

end
